theory Spec2Isabelle
  imports Complex_Main
begin

section \<open>Numbers and GLSL built-ins\<close>

text \<open>
  JavaScript numbers and GLSL floats are modelled as mathematical reals: rounding error,
  infinities and NaN are outside the model. A GLSL \<^verbatim>\<open>vec2\<close>, \<^verbatim>\<open>vec3\<close>,
  \<^verbatim>\<open>vec4\<close> is a tuple of reals. The built-ins follow the GLSL ES 3.00 definitions:
  \<^verbatim>\<open>fract(x) = x - floor(x)\<close>, \<^verbatim>\<open>clamp(x, a, b) = min(max(x, a), b)\<close>,
  \<^verbatim>\<open>mix(a, b, t) = a * (1 - t) + b * t\<close>, \<^verbatim>\<open>step(e, x) = x < e ? 0 : 1\<close> and
  \<^verbatim>\<open>smoothstep(e0, e1, x)\<close> is \<^verbatim>\<open>t * t * (3 - 2 * t)\<close> for
  \<^verbatim>\<open>t = clamp((x - e0) / (e1 - e0), 0, 1)\<close>. GLSL leaves \<^verbatim>\<open>smoothstep\<close> undefined
  for \<^verbatim>\<open>e0 >= e1\<close>; here the division by zero is HOL's (it yields 0).
\<close>

type_synonym vec2 = "real \<times> real"
type_synonym vec3 = "real \<times> real \<times> real"
type_synonym vec4 = "real \<times> real \<times> real \<times> real"

definition fract :: "real \<Rightarrow> real" where
  "fract x = x - of_int \<lfloor>x\<rfloor>"

definition clamp :: "real \<Rightarrow> real \<Rightarrow> real \<Rightarrow> real" where
  "clamp x lo hi = min (max x lo) hi"

definition mix :: "real \<Rightarrow> real \<Rightarrow> real \<Rightarrow> real" where
  "mix a b t = a * (1 - t) + b * t"

definition step :: "real \<Rightarrow> real \<Rightarrow> real" where
  "step edge x = (if x < edge then 0 else 1)"

definition smoothstep :: "real \<Rightarrow> real \<Rightarrow> real \<Rightarrow> real" where
  "smoothstep e0 e1 x = (let t = clamp ((x - e0) / (e1 - e0)) 0 1 in t * t * (3 - 2 * t))"

definition vadd :: "vec2 \<Rightarrow> vec2 \<Rightarrow> vec2" where
  "vadd a b = (fst a + fst b, snd a + snd b)"

definition vmul :: "vec2 \<Rightarrow> vec2 \<Rightarrow> vec2" where
  "vmul a b = (fst a * fst b, snd a * snd b)"

definition vscale :: "vec2 \<Rightarrow> real \<Rightarrow> vec2" where
  "vscale a k = (fst a * k, snd a * k)"

section \<open>Petal particles: the vertex shader\<close>

text \<open>
  The per-instance attributes of \<^verbatim>\<open>particleVertexSource\<close> (one row of the instance
  buffer), the per-vertex attributes of the quad, and the uniforms set by \<^verbatim>\<open>draw\<close>
  (named as the host code names their locations: \<^verbatim>\<open>uPTime\<close> is the shader's \<^verbatim>\<open>uTime\<close>).
\<close>

record particle_instance =
  aInstancePos :: vec2
  aInstanceVel :: vec2
  aInstanceSize :: vec2
  aInstanceRot :: vec3
  aInstanceRotSpeed :: vec3
  aInstanceSpeed :: real
  aInstanceDepth :: real
  aInstanceSeed :: real

record particle_uniforms =
  uPResolution :: vec2
  uPTime :: real
  uPWind :: vec2
  uPWindFreq :: real
  uPWindSpeed :: real
  uPWindAmp :: real

record particle_vertex_out =
  gl_Position :: vec4
  vUv :: vec2
  vAlpha :: real
  vLife :: real

text \<open>\<^verbatim>\<open>float progress = fract(uTime * aInstanceSpeed + aInstanceSeed);\<close>\<close>

definition particle_progress :: "particle_uniforms \<Rightarrow> particle_instance \<Rightarrow> real" where
  "particle_progress u a = fract (uPTime u * aInstanceSpeed a + aInstanceSeed a)"

text \<open>\<^verbatim>\<open>vec2 pos = aInstancePos + aInstanceVel * progress;\<close> (before the wind sway).\<close>

definition particle_flow_pos :: "particle_uniforms \<Rightarrow> particle_instance \<Rightarrow> vec2" where
  "particle_flow_pos u a = vadd (aInstancePos a) (vscale (aInstanceVel a) (particle_progress u a))"

text \<open>
  The whole \<^verbatim>\<open>main\<close> of the vertex shader, statement by statement. The three
  reassignments of \<^verbatim>\<open>local\<close> are the rotations about the x, y and z axes.
\<close>

definition particleVertexSource ::
  "particle_uniforms \<Rightarrow> particle_instance \<Rightarrow> vec2 \<Rightarrow> vec2 \<Rightarrow> particle_vertex_out" where
  "particleVertexSource u a aPosition aUv =
    (let progress = particle_progress u a;
         pos0 = particle_flow_pos u a;
         wind = sin ((snd pos0 / snd (uPResolution u)) * uPWindFreq u + uPTime u * uPWindSpeed u
                     + aInstanceSeed a);
         pos = vadd pos0 (vscale (vscale (uPWind u) wind) (uPWindAmp u));
         scaleBoost = mix 0.6 1.3 progress;
         lxy = vscale (vmul aPosition (aInstanceSize a)) scaleBoost;
         lx0 = fst lxy; ly0 = snd lxy; lz0 = - aInstanceDepth a * progress;
         rx = fst (aInstanceRot a) + fst (aInstanceRotSpeed a) * uPTime u;
         ry = fst (snd (aInstanceRot a)) + fst (snd (aInstanceRotSpeed a)) * uPTime u;
         rz = snd (snd (aInstanceRot a)) + snd (snd (aInstanceRotSpeed a)) * uPTime u;
         cx = cos rx; sx = sin rx; cy = cos ry; sy = sin ry; cz = cos rz; sz = sin rz;
         lx1 = lx0; ly1 = ly0 * cx - lz0 * sx; lz1 = ly0 * sx + lz0 * cx;
         lx2 = lx1 * cy + lz1 * sy; ly2 = ly1; lz2 = - lx1 * sy + lz1 * cy;
         lx3 = lx2 * cz - ly2 * sz; ly3 = lx2 * sz + ly2 * cz; lz3 = lz2;
         perspective = 1 / (1 + lz3 * 0.002);
         offset = vscale (lx3, ly3) perspective;
         ndc = ((fst pos / fst (uPResolution u)) * 2 - 1, 1 - (snd pos / snd (uPResolution u)) * 2);
         ndcOffset = (fst offset / fst (uPResolution u) * 2, - snd offset / snd (uPResolution u) * 2)
     in \<lparr> gl_Position = (fst (vadd ndc ndcOffset), snd (vadd ndc ndcOffset), 0, 1),
          vUv = aUv,
          vAlpha = clamp perspective 0.45 1,
          vLife = progress \<rparr>)"

section \<open>GPU resource loader\<close>

text \<open>
  The WebGL context is modelled by the calls made on it, in order, and a counter that
  names the next object it hands out. What only the driver decides (whether an object can
  be allocated, whether a source compiles, whether a pair of shaders links, and the info
  log it reports, \<open>None\<close> for JavaScript's \<^verbatim>\<open>null\<close>) is a parameter, the \<open>driver\<close>.
  A thrown \<^verbatim>\<open>Error(msg)\<close> is the value \<open>Inl (Error msg)\<close>.
\<close>

datatype error = Error string

datatype shader_type = VERTEX_SHADER | FRAGMENT_SHADER

datatype outcome = Success | Failure "string option"

datatype gl_call =
    CreateShader shader_type "nat option"
  | ShaderSource nat string
  | CompileShader nat
  | DeleteShader nat
  | CreateProgram "nat option"
  | AttachShader nat nat
  | LinkProgram nat
  | DeleteProgram nat
  | UseProgram nat
  | BindBuffer nat
  | EnableVertexAttribArray string
  | VertexAttribPointer string nat nat nat
  | ActiveTexture0
  | BindTexture nat
  | BindVertexArray "nat option"
  | Uniform1i string int
  | Uniform1f string real
  | Uniform2f string real real
  | Uniform3f string real real real
  | Uniform4fv string "real list"
  | Uniform1fv string "real list"
  | Viewport real real real real
  | ClearColor real real real real
  | ClearColorBuffer
  | DrawArrays nat nat
  | DrawArraysInstanced nat nat nat

record driver =
  createProgram_ok :: bool
  createShader_ok :: "shader_type \<Rightarrow> bool"
  compileStatus :: "shader_type \<Rightarrow> string \<Rightarrow> outcome"
  linkStatus :: "string \<Rightarrow> string \<Rightarrow> outcome"

record gl_state =
  next_handle :: nat
  calls :: "gl_call list"

definition issue :: "gl_call list \<Rightarrow> gl_state \<Rightarrow> gl_state" where
  "issue cs s = s\<lparr>calls := calls s @ cs\<rparr>"

text \<open>\<^verbatim>\<open>log ?? fallback\<close>\<close>

definition log_or :: "string option \<Rightarrow> string \<Rightarrow> string" where
  "log_or info fallback = (case info of None \<Rightarrow> fallback | Some l \<Rightarrow> l)"

definition createShader ::
  "driver \<Rightarrow> shader_type \<Rightarrow> string \<Rightarrow> gl_state \<Rightarrow> (error + nat) \<times> gl_state" where
  "createShader d ty source s =
    (if \<not> createShader_ok d ty
     then (Inl (Error ''Unable to create shader''), issue [CreateShader ty None] s)
     else
       let shader = next_handle s;
           s1 = issue [CreateShader ty (Some shader), ShaderSource shader source, CompileShader shader]
                  (s\<lparr>next_handle := shader + 1\<rparr>)
       in case compileStatus d ty source of
            Failure info \<Rightarrow>
              (Inl (Error (log_or info ''Shader compile error'')), issue [DeleteShader shader] s1)
          | Success \<Rightarrow> (Inr shader, s1))"

definition createProgram ::
  "driver \<Rightarrow> string \<Rightarrow> string \<Rightarrow> gl_state \<Rightarrow> (error + nat) \<times> gl_state" where
  "createProgram d vs fs s =
    (if \<not> createProgram_ok d
     then (Inl (Error ''Unable to create program''), issue [CreateProgram None] s)
     else
       let program = next_handle s;
           s1 = issue [CreateProgram (Some program)] (s\<lparr>next_handle := program + 1\<rparr>)
       in case createShader d VERTEX_SHADER vs s1 of
            (Inl e, s2) \<Rightarrow> (Inl e, s2)
          | (Inr vShader, s2) \<Rightarrow>
              (case createShader d FRAGMENT_SHADER fs s2 of
                 (Inl e, s3) \<Rightarrow> (Inl e, s3)
               | (Inr fShader, s3) \<Rightarrow>
                   let s4 = issue [AttachShader program vShader, AttachShader program fShader,
                                   LinkProgram program, DeleteShader vShader, DeleteShader fShader] s3
                   in (case linkStatus d vs fs of
                         Failure info \<Rightarrow>
                           (Inl (Error (log_or info ''Program link error'')),
                            issue [DeleteProgram program] s4)
                       | Success \<Rightarrow> (Inr program, s4))))"

text \<open>
  \<^verbatim>\<open>loadTexture\<close> returns a promise. It settles once, when the image has loaded or
  failed: with the texture handle and the image's natural size, or with an error
  (\<^verbatim>\<open>Failed to load <url>\<close> from \<^verbatim>\<open>onerror\<close>, \<^verbatim>\<open>Unable to create texture\<close> from
  \<^verbatim>\<open>onload\<close>). In the model a promise is its state, and the settlement arrives as an
  event carrying the outcome.
\<close>

record LoadedTexture =
  texture :: nat
  width :: real
  height :: real

datatype 'a promise = Pending | Fulfilled 'a | Rejected error

definition settle :: "error + 'a \<Rightarrow> 'a promise" where
  "settle r = (case r of Inl e \<Rightarrow> Rejected e | Inr v \<Rightarrow> Fulfilled v)"

text \<open>The values of a list of promises when all of them are fulfilled (\<^verbatim>\<open>Promise.all\<close>).\<close>

fun all_fulfilled :: "'a promise list \<Rightarrow> 'a list option" where
  "all_fulfilled [] = Some []"
| "all_fulfilled (Fulfilled v # ps) = map_option ((#) v) (all_fulfilled ps)"
| "all_fulfilled (_ # ps) = None"

subsection \<open>Observing the loader\<close>

text \<open>The calls made between two states of the context; a driver that accepts everything
  up to linking, whose outcome is given; a context on which nothing has been called.\<close>

definition calls_since :: "gl_state \<Rightarrow> gl_state \<Rightarrow> gl_call list" where
  "calls_since s s' = drop (length (calls s)) (calls s')"

definition example_driver :: "outcome \<Rightarrow> driver" where
  "example_driver l =
    \<lparr> createProgram_ok = True, createShader_ok = (\<lambda>ty. True),
      compileStatus = (\<lambda>ty src. Success), linkStatus = (\<lambda>vs fs. l) \<rparr>"

definition fresh_gl :: gl_state where
  "fresh_gl = \<lparr> next_handle = 0, calls = [] \<rparr>"

section \<open>Wind layer\<close>

subsection \<open>The fragment shader\<close>

text \<open>
  The uniforms of \<^verbatim>\<open>fragmentSource\<close> in \<^verbatim>\<open>flying-layers.ts\<close>. The sampler
  \<^verbatim>\<open>uTexture\<close> is the function it samples. The arrays \<^verbatim>\<open>uRects[8]\<close> and
  \<^verbatim>\<open>uRectFeather[8]\<close> are lists; an element the host never uploaded reads as zero.
  The shader's own constant \<^verbatim>\<open>PI\<close> is the decimal it writes, not \<open>pi\<close>.
\<close>

record wind_uniforms =
  uAmp :: vec2
  uFreq :: vec2
  uSpeed :: vec2
  uTime :: real
  uRectCount :: int
  uRects :: "vec4 list"
  uRectFeather :: "real list"
  uDebugRects :: real
  uRectBorder :: real
  uDebugColor :: vec3

definition PI :: real where
  "PI = 3.141592653589793"

definition rect_at :: "wind_uniforms \<Rightarrow> nat \<Rightarrow> vec4" where
  "rect_at u i = (if i < length (uRects u) then uRects u ! i else (0, 0, 0, 0))"

definition feather_at :: "wind_uniforms \<Rightarrow> nat \<Rightarrow> real" where
  "feather_at u i = (if i < length (uRectFeather u) then uRectFeather u ! i else 0)"

text \<open>\<^verbatim>\<open>rectMask = insideX * insideY\<close> of rect \<open>i\<close> at the fragment \<open>uv\<close>.\<close>

definition rectMask :: "wind_uniforms \<Rightarrow> vec2 \<Rightarrow> nat \<Rightarrow> real" where
  "rectMask u uv i =
    (case rect_at u i of (rx, ry, rw, rh) \<Rightarrow>
       let rectMinX = rx; rectMinY = ry; rectMaxX = rx + rw; rectMaxY = ry + rh;
           feather = feather_at u i;
           insideX = smoothstep (rectMinX - feather) (rectMinX + feather) (fst uv)
                     * (1 - smoothstep (rectMaxX - feather) (rectMaxX + feather) (fst uv));
           insideY = smoothstep (rectMinY - feather) (rectMinY + feather) (snd uv)
                     * (1 - smoothstep (rectMaxY - feather) (rectMaxY + feather) (snd uv))
       in insideX * insideY)"

text \<open>\<^verbatim>\<open>vec2(swayX, swayY)\<close> of rect \<open>i\<close>, from the rect's centre.\<close>

definition rectSway :: "wind_uniforms \<Rightarrow> nat \<Rightarrow> vec2" where
  "rectSway u i =
    (case rect_at u i of (rx, ry, rw, rh) \<Rightarrow>
       let rectCenterX = rx + rw * 0.5; rectCenterY = ry + rh * 0.5;
           swayX = sin ((rectCenterY * fst (uFreq u) * 2 * PI) + (uTime u * fst (uSpeed u)));
           swayY = sin ((rectCenterX * snd (uFreq u) * 2 * PI) + (uTime u * snd (uSpeed u)) + PI * 0.5)
       in (swayX, swayY))"

text \<open>The debug border of rect \<open>i\<close> (\<^verbatim>\<open>rectBorder\<close>), used when \<^verbatim>\<open>uDebugRects > 0.5\<close>.\<close>

definition rectBorder :: "wind_uniforms \<Rightarrow> vec2 \<Rightarrow> nat \<Rightarrow> real" where
  "rectBorder u uv i =
    (case rect_at u i of (rx, ry, rw, rh) \<Rightarrow>
       let rectMinX = rx; rectMinY = ry; rectMaxX = rx + rw; rectMaxY = ry + rh;
           inside = step rectMinX (fst uv) * step rectMinY (snd uv)
                    * step (fst uv) rectMaxX * step (snd uv) rectMaxY;
           distEdge = min (min \<bar>fst uv - rectMinX\<bar> \<bar>fst uv - rectMaxX\<bar>)
                          (min \<bar>snd uv - rectMinY\<bar> \<bar>snd uv - rectMaxY\<bar>)
       in inside * (1 - smoothstep 0 (uRectBorder u) distEdge))"

text \<open>
  The loop \<^verbatim>\<open>for (int i = 0; i < 8; i += 1) { if (i >= uRectCount) break; ... }\<close> on the
  pair \<^verbatim>\<open>(offset, borderMask)\<close>.
\<close>

function wind_loop :: "wind_uniforms \<Rightarrow> vec2 \<Rightarrow> nat \<Rightarrow> vec2 \<times> real \<Rightarrow> vec2 \<times> real" where
  "wind_loop u uv i acc =
    (if i < 8 then
       (if int i \<ge> uRectCount u then acc
        else
          let offset = fst acc; borderMask = snd acc;
              m = rectMask u uv i;
              offset1 = (if m > 0.0001 then vadd offset (vscale (rectSway u i) m) else offset);
              borderMask1 = (if uDebugRects u > 0.5 then max borderMask (rectBorder u uv i)
                             else borderMask)
          in wind_loop u uv (i + 1) (offset1, borderMask1))
     else acc)"
  by pat_completeness auto
termination
  by (relation "measure (\<lambda>(u, uv, i, acc). 8 - i)") auto

declare wind_loop.simps [simp del]

text \<open>The accumulated \<^verbatim>\<open>offset\<close> and the coordinate the texture is sampled at.\<close>

definition wind_offset :: "wind_uniforms \<Rightarrow> vec2 \<Rightarrow> vec2" where
  "wind_offset u uv = fst (wind_loop u uv 0 ((0, 0), 0))"

definition wind_sample_uv :: "wind_uniforms \<Rightarrow> vec2 \<Rightarrow> vec2" where
  "wind_sample_uv u uv = vadd uv (vmul (wind_offset u uv) (uAmp u))"

definition wind_fragmentSource :: "(vec2 \<Rightarrow> vec4) \<Rightarrow> wind_uniforms \<Rightarrow> vec2 \<Rightarrow> vec4" where
  "wind_fragmentSource uTexture u uv0 =
    (if uRectCount u = 0 \<and> uDebugRects u < 0.5 then uTexture uv0
     else
       let borderMask = snd (wind_loop u uv0 0 ((0, 0), 0));
           outColor = uTexture (wind_sample_uv u uv0)
       in if uDebugRects u > 0.5 then
            (case outColor of (r, g, b, a) \<Rightarrow>
               (case uDebugColor u of (dr, dg, db) \<Rightarrow>
                  (mix r dr borderMask, mix g dg borderMask, mix b db borderMask, max a borderMask)))
          else outColor)"

subsection \<open>The host side\<close>

text \<open>
  A sprite (\<^verbatim>\<open>type Layer\<close>); optional fields are options. \<^verbatim>\<open>buildRectUniforms\<close>
  converts the rects from sprite pixels (top-left origin) to UV space. A division by a
  zero \<^verbatim>\<open>width\<close> or \<^verbatim>\<open>height\<close> is HOL's here (JavaScript gives an infinity or NaN).
\<close>

record rect =
  rect_px :: vec2
  rect_size :: vec2
  rect_feather :: real

record Layer =
  layer_texture :: nat
  layer_width :: real
  layer_height :: real
  layer_x :: real
  layer_y :: real
  amp :: vec2
  freq :: vec2
  speed :: vec2
  rects :: "rect list option"
  rectCount :: "nat option"
  rectData :: "real list option"
  rectFeatherData :: "real list option"

record ReferenceSize =
  ref_width :: real
  ref_height :: real

definition DEBUG_RECTS :: bool where
  "DEBUG_RECTS = False"

definition maxRects :: nat where
  "maxRects = 8"

definition buildRectUniforms :: "Layer \<Rightarrow> Layer" where
  "buildRectUniforms layer =
    (let rs = (case rects layer of None \<Rightarrow> [] | Some r \<Rightarrow> r);
         n = min (length rs) maxRects;
         data = concat (map (\<lambda>i.
                  if i < n then
                    let r = rs ! i;
                        rectX = fst (rect_px r) / layer_width layer;
                        rectY = 1 - (snd (rect_px r) + snd (rect_size r)) / layer_height layer;
                        rectW = fst (rect_size r) / layer_width layer;
                        rectH = snd (rect_size r) / layer_height layer
                    in [rectX, rectY, rectW, rectH]
                  else [0, 0, 0, 0]) [0..<maxRects]);
         fdata = map (\<lambda>i. if i < n then rect_feather (rs ! i) else 0) [0..<maxRects]
     in layer\<lparr>rectCount := Some n, rectData := Some data, rectFeatherData := Some fdata\<rparr>)"

text \<open>The sprites built by the \<^verbatim>\<open>ready\<close> callback from the four loaded textures.\<close>

definition sprite ::
  "LoadedTexture \<Rightarrow> real \<Rightarrow> real \<Rightarrow> vec2 \<Rightarrow> vec2 \<Rightarrow> vec2 \<Rightarrow> (vec2 \<times> vec2 \<times> real) list \<Rightarrow> Layer" where
  "sprite t x y a f s rs =
    \<lparr> layer_texture = texture t, layer_width = width t, layer_height = height t,
      layer_x = x, layer_y = y, amp = a, freq = f, speed = s,
      rects = Some (map (\<lambda>(p, sz, fe). \<lparr> rect_px = p, rect_size = sz, rect_feather = fe \<rparr>) rs),
      rectCount = None, rectData = None, rectFeatherData = None \<rparr>"

definition wind_layers :: "LoadedTexture list \<Rightarrow> Layer list" where
  "wind_layers ts =
    (case ts of
       [bridge, flying_1, flying_2, leaves] \<Rightarrow>
         map buildRectUniforms
           [ sprite bridge (-20) 168 (0.012, 0.004) (8, 5) (1.2, 0.6)
               [((0, 0), (145, 298), 0.05)],
             sprite flying_1 107 0 (0.012, 0.006) (10, 7) (1.2, 1.2)
               [((870, 380), (10, 10), 0.06),
                ((1100, 90), (80, 110), 0.08),
                ((1310, 440), (74, 220), 0.1)],
             sprite flying_2 300 5 (0.012, 0.006) (10, 7) (1.2, 1.6)
               [((48, 160), (72, 70), 0.08),
                ((1272, 77), (60, 80), 0.1),
                ((1459, 24), (57, 65), 0.1),
                ((1095, 495), (146, 108), 0.03),
                ((420, 295), (80, 60), 0.08)],
             sprite leaves 1088 614 (0.02, 0.01) (6, 4) (1.2, 1.0)
               [((191, 204), (151, 96), 0.05),
                ((52, 70), (174, 87), 0.05),
                ((26, 5), (202, 66), 0.05),
                ((225, 45), (117, 135), 0.05)] ]
     | _ \<Rightarrow> [])"

text \<open>
  The body of \<^verbatim>\<open>layers.forEach((layer, index) => ...)\<close> in \<^verbatim>\<open>draw\<close>, as the calls
  it makes, and \<^verbatim>\<open>draw\<close> itself. \<open>program\<close> and \<open>quadBuffer\<close> are the objects the
  constructor created.
\<close>

definition wind_draw_layer :: "ReferenceSize \<Rightarrow> real \<Rightarrow> Layer \<Rightarrow> nat \<Rightarrow> gl_call list" where
  "wind_draw_layer referenceSize time layer index =
    (let centerX = layer_x layer + layer_width layer * 0.5;
         centerY = layer_y layer + layer_height layer * 0.5;
         translateX = (centerX / ref_width referenceSize) * 2 - 1;
         translateY = 1 - (centerY / ref_height referenceSize) * 2;
         scaleX = layer_width layer / ref_width referenceSize;
         scaleY = layer_height layer / ref_height referenceSize
     in [ ActiveTexture0, BindTexture (layer_texture layer), Uniform1i ''uTexture'' 0,
          Uniform2f ''uAmp'' (fst (amp layer)) (snd (amp layer)),
          Uniform2f ''uFreq'' (fst (freq layer)) (snd (freq layer)),
          Uniform2f ''uSpeed'' (fst (speed layer)) (snd (speed layer)),
          Uniform2f ''uTranslate'' translateX translateY,
          Uniform2f ''uScale'' scaleX scaleY,
          Uniform1f ''uDebugRects'' (if DEBUG_RECTS then 1 else 0),
          Uniform1f ''uRectBorder'' (3 / min (layer_width layer) (layer_height layer)),
          Uniform3f ''uDebugColor'' 0.15 0.95 0.25,
          Uniform1i ''uRectCount'' (case rectCount layer of None \<Rightarrow> 0 | Some n \<Rightarrow> int n) ]
        @ (case (rectData layer, rectFeatherData layer) of
             (Some data, Some fdata) \<Rightarrow> [Uniform4fv ''uRects[0]'' data, Uniform1fv ''uRectFeather[0]'' fdata]
           | _ \<Rightarrow> [])
        @ [ Uniform1f ''uTime'' (time + real index * 0.15), DrawArrays 0 4 ])"

definition wind_draw :: "ReferenceSize \<Rightarrow> nat \<Rightarrow> nat \<Rightarrow> Layer list \<Rightarrow> real \<Rightarrow> gl_call list" where
  "wind_draw referenceSize program quadBuffer layers time =
    (if layers = [] then []
     else [ UseProgram program, BindBuffer quadBuffer,
            EnableVertexAttribArray ''aPosition'', VertexAttribPointer ''aPosition'' 2 16 0,
            EnableVertexAttribArray ''aUv'', VertexAttribPointer ''aUv'' 2 16 8 ]
          @ concat (map (\<lambda>(layer, index). wind_draw_layer referenceSize time layer index)
                        (zip layers [0..<length layers])))"

section \<open>Fog layer\<close>

text \<open>
  \<^verbatim>\<open>type FogFlow\<close>: \<^verbatim>\<open>start\<close>, \<^verbatim>\<open>end\<close> and \<^verbatim>\<open>height\<close> are required,
  \<^verbatim>\<open>speed\<close>, \<^verbatim>\<open>density\<close> and \<^verbatim>\<open>feather\<close> are optional (\<open>None\<close> is
  \<^verbatim>\<open>undefined\<close>). A \<^verbatim>\<open>Partial<FogFlow>\<close> may leave any key out: \<open>None\<close> is a key
  that is absent, \<open>Some v\<close> a key that is present with value \<open>v\<close> (which, for an optional
  field, may itself be \<^verbatim>\<open>undefined\<close>). The object spread \<^verbatim>\<open>{...flow, ...next}\<close> takes
  each key from \<^verbatim>\<open>next\<close> when it is present there and from \<^verbatim>\<open>flow\<close> otherwise.
\<close>

record FogFlow =
  flow_start :: vec2
  flow_end :: vec2
  flow_height :: real
  flow_speed :: "real option"
  flow_density :: "real option"
  flow_feather :: "real option"

record FogFlowPartial =
  next_start :: "vec2 option"
  next_end :: "vec2 option"
  next_height :: "real option"
  next_speed :: "real option option"
  next_density :: "real option option"
  next_feather :: "real option option"

definition spread :: "'a \<Rightarrow> 'a option \<Rightarrow> 'a" where
  "spread old new = (case new of None \<Rightarrow> old | Some v \<Rightarrow> v)"

definition setFlow :: "FogFlow \<Rightarrow> FogFlowPartial \<Rightarrow> FogFlow" where
  "setFlow flow next =
    \<lparr> flow_start = spread (flow_start flow) (next_start next),
      flow_end = spread (flow_end flow) (next_end next),
      flow_height = spread (flow_height flow) (next_height next),
      flow_speed = spread (flow_speed flow) (next_speed next),
      flow_density = spread (flow_density flow) (next_density next),
      flow_feather = spread (flow_feather flow) (next_feather next) \<rparr>"

text \<open>The default argument of \<^verbatim>\<open>createFogLayer\<close>.\<close>

definition default_flow :: FogFlow where
  "default_flow =
    \<lparr> flow_start = (0, 0), flow_end = (940, 0), flow_height = 260,
      flow_speed = Some 0.45, flow_density = Some 0.2, flow_feather = Some 300 \<rparr>"

text \<open>\<^verbatim>\<open>a ?? b\<close>\<close>

definition nullish :: "real option \<Rightarrow> real \<Rightarrow> real" where
  "nullish a b = (case a of None \<Rightarrow> b | Some v \<Rightarrow> v)"

definition fog_draw :: "ReferenceSize \<Rightarrow> nat \<Rightarrow> nat \<Rightarrow> FogFlow \<Rightarrow> real \<Rightarrow> gl_call list" where
  "fog_draw referenceSize program quadBuffer flow time =
    [ UseProgram program, BindBuffer quadBuffer,
      EnableVertexAttribArray ''aPosition'', VertexAttribPointer ''aPosition'' 2 8 0,
      Uniform1f ''uTime'' time,
      Uniform2f ''uResolution'' (ref_width referenceSize) (ref_height referenceSize),
      Uniform2f ''uStart'' (fst (flow_start flow)) (snd (flow_start flow)),
      Uniform2f ''uEnd'' (fst (flow_end flow)) (snd (flow_end flow)),
      Uniform1f ''uHeight'' (flow_height flow),
      Uniform1f ''uSpeed'' (nullish (flow_speed flow) 0.45),
      Uniform1f ''uDensity'' (nullish (flow_density flow) 0.35),
      Uniform1f ''uFeather'' (nullish (flow_feather flow) (flow_height flow * 0.5)),
      DrawArrays 0 4 ]"

text \<open>The uniform a call sets, if it sets one; the calls of a list that set a given uniform.\<close>

fun uniform_name :: "gl_call \<Rightarrow> string option" where
  "uniform_name (Uniform1i n _) = Some n"
| "uniform_name (Uniform1f n _) = Some n"
| "uniform_name (Uniform2f n _ _) = Some n"
| "uniform_name (Uniform3f n _ _ _) = Some n"
| "uniform_name (Uniform4fv n _) = Some n"
| "uniform_name (Uniform1fv n _) = Some n"
| "uniform_name _ = None"

definition uniform_calls :: "string \<Rightarrow> gl_call list \<Rightarrow> gl_call list" where
  "uniform_calls n cs = filter (\<lambda>c. uniform_name c = Some n) cs"

text \<open>The keys of \<^verbatim>\<open>FogFlow\<close>, the uniform each is uploaded to, and the keys a partial
  update holds.\<close>

datatype fog_key = KStart | KEnd | KHeight | KSpeed | KDensity | KFeather

fun key_uniform :: "fog_key \<Rightarrow> string" where
  "key_uniform KStart = ''uStart''"
| "key_uniform KEnd = ''uEnd''"
| "key_uniform KHeight = ''uHeight''"
| "key_uniform KSpeed = ''uSpeed''"
| "key_uniform KDensity = ''uDensity''"
| "key_uniform KFeather = ''uFeather''"

definition keys_of :: "FogFlowPartial \<Rightarrow> fog_key list" where
  "keys_of next =
    (if next_start next = None then [] else [KStart]) @
    (if next_end next = None then [] else [KEnd]) @
    (if next_height next = None then [] else [KHeight]) @
    (if next_speed next = None then [] else [KSpeed]) @
    (if next_density next = None then [] else [KDensity]) @
    (if next_feather next = None then [] else [KFeather])"

section \<open>Pulse mask layer\<close>

record PulseMaskLayer =
  mask_texture :: nat
  mask_width :: real
  mask_height :: real
  mask_x :: real
  mask_y :: real

text \<open>The state assigned by the \<^verbatim>\<open>ready\<close> callback.\<close>

definition pulse_layer :: "ReferenceSize \<Rightarrow> LoadedTexture \<Rightarrow> PulseMaskLayer" where
  "pulse_layer referenceSize loaded =
    \<lparr> mask_texture = texture loaded, mask_width = width loaded, mask_height = height loaded,
      mask_x = (ref_width referenceSize - width loaded) * 0.5,
      mask_y = (ref_height referenceSize - height loaded) * 0.5 \<rparr>"

definition pulse_draw ::
  "ReferenceSize \<Rightarrow> nat \<Rightarrow> nat \<Rightarrow> PulseMaskLayer option \<Rightarrow> real \<Rightarrow> gl_call list" where
  "pulse_draw referenceSize program quadBuffer layer time =
    (case layer of
       None \<Rightarrow> []
     | Some l \<Rightarrow>
         let centerX = mask_x l + mask_width l * 0.5;
             centerY = mask_y l + mask_height l * 0.5;
             translateX = (centerX / ref_width referenceSize) * 2 - 1;
             translateY = 1 - (centerY / ref_height referenceSize) * 2;
             scaleX = mask_width l / ref_width referenceSize;
             scaleY = mask_height l / ref_height referenceSize
         in [ UseProgram program, BindBuffer quadBuffer,
              EnableVertexAttribArray ''aPosition'', VertexAttribPointer ''aPosition'' 2 16 0,
              EnableVertexAttribArray ''aUv'', VertexAttribPointer ''aUv'' 2 16 8,
              ActiveTexture0, BindTexture (mask_texture l), Uniform1i ''uMask'' 0,
              Uniform1f ''uTime'' time,
              Uniform2f ''uTranslate'' translateX translateY,
              Uniform2f ''uScale'' scaleX scaleY,
              DrawArrays 0 4 ])"

section \<open>Petal particles: the host side\<close>

text \<open>
  A batch (\<^verbatim>\<open>type ParticleGroup\<close>). \<^verbatim>\<open>createParticleGroup\<close> allocates a vertex array
  and an instance buffer and throws when either is missing; the random instance data it
  uploads stays on the GPU and is not part of the batch. \<open>alloc\<close> is the driver's answer:
  \<open>None\<close> when it cannot allocate, \<open>Some h\<close> when the next objects are \<open>h\<close>,
  \<open>h + 1\<close>, and so on.
\<close>

record ParticleGroup =
  group_texture :: nat
  group_count :: nat
  group_vao :: nat

definition createParticleGroup :: "nat option \<Rightarrow> LoadedTexture \<Rightarrow> nat \<Rightarrow> error + ParticleGroup" where
  "createParticleGroup alloc t n =
    (case alloc of
       None \<Rightarrow> Inl (Error ''Unable to create particle buffers'')
     | Some vao \<Rightarrow> Inr \<lparr> group_texture = texture t, group_count = n, group_vao = vao \<rparr>)"

text \<open>The array literal of the \<^verbatim>\<open>ready\<close> callback: four batches of ten, or the first throw.\<close>

fun particle_groups :: "nat option \<Rightarrow> LoadedTexture list \<Rightarrow> error + ParticleGroup list" where
  "particle_groups alloc [] = Inr []"
| "particle_groups alloc (t # ts) =
    (case createParticleGroup alloc t 10 of
       Inl e \<Rightarrow> Inl e
     | Inr g \<Rightarrow>
         (case particle_groups (map_option (\<lambda>h. h + 2) alloc) ts of
            Inl e \<Rightarrow> Inl e
          | Inr gs \<Rightarrow> Inr (g # gs)))"

definition sakura_draw :: "ReferenceSize \<Rightarrow> nat \<Rightarrow> ParticleGroup list \<Rightarrow> real \<Rightarrow> gl_call list" where
  "sakura_draw referenceSize particleProgram particleGroups time =
    (if particleGroups = [] then []
     else [ UseProgram particleProgram,
            Uniform2f ''uResolution'' (ref_width referenceSize) (ref_height referenceSize),
            Uniform1f ''uTime'' time,
            Uniform2f ''uWind'' 1 0.15,
            Uniform1f ''uWindFreq'' 6.0,
            Uniform1f ''uWindSpeed'' 1.4,
            Uniform1f ''uWindAmp'' 18 ]
          @ concat (map (\<lambda>g. [ ActiveTexture0, BindTexture (group_texture g), Uniform1i ''uTexture'' 0,
                                 BindVertexArray (Some (group_vao g)),
                                 DrawArraysInstanced 0 4 (group_count g) ]) particleGroups)
          @ [ BindVertexArray None ])"

section \<open>Scene orchestrator\<close>

text \<open>
  \<^verbatim>\<open>initScene\<close> runs a synchronous prefix (mounting, context creation, the four layer
  constructors, the blend state), registers the continuation of
  \<^verbatim>\<open>Promise.all([windLayer.ready, pulseMaskLayer.ready, sakuraLayer.ready])\<close> and the
  resize listener, and returns. If the prefix throws, nothing is registered. From then on
  the page is driven by events: an image load settles, the browser runs a requested
  animation callback, the window is resized, the environment changes. The model is the
  state after the prefix and a function that handles one event.

  What the code reads from the browser is the \<open>environment\<close>: the canvas's laid-out size
  (\<^verbatim>\<open>getBoundingClientRect\<close>), \<^verbatim>\<open>window.devicePixelRatio\<close> (0 stands for any falsy
  value), \<^verbatim>\<open>performance.now()\<close>, and the driver's answer to an allocation.
\<close>

datatype layer_id = PulseMask | Fog | Wind | Sakura

record environment =
  layout_width :: real
  layout_height :: real
  devicePixelRatio :: real
  clock :: real
  alloc :: "nat option"

text \<open>
  The canvas: its \<^verbatim>\<open>width\<close> and \<^verbatim>\<open>height\<close> properties, and how many times one of
  them has been assigned (every assignment reallocates the drawing buffer).
\<close>

record canvas =
  canvas_width :: int
  canvas_height :: int
  assignments :: nat

text \<open>\<^verbatim>\<open>Math.round\<close> rounds to the nearest integer, a half towards \<open>+\<infinity>\<close>.\<close>

definition js_round :: "real \<Rightarrow> int" where
  "js_round x = \<lfloor>x + 1 / 2\<rfloor>"

definition resizeCanvas :: "environment \<Rightarrow> canvas \<Rightarrow> canvas" where
  "resizeCanvas e c =
    (let dpr = min (if devicePixelRatio e = 0 then 1 else devicePixelRatio e) 2;
         targetWidth = max 1 (js_round (layout_width e * dpr));
         targetHeight = max 1 (js_round (layout_height e * dpr))
     in if canvas_width c \<noteq> targetWidth \<or> canvas_height c \<noteq> targetHeight
        then c\<lparr>canvas_width := targetWidth, canvas_height := targetHeight,
               assignments := assignments c + 2\<rparr>
        else c)"

definition referenceSize :: ReferenceSize where
  "referenceSize = \<lparr> ref_width = 1920, ref_height = 1080 \<rparr>"

text \<open>
  \<^verbatim>\<open>targetFps\<close> has type \<^verbatim>\<open>15 | 24 | 30 | 60 | null\<close> and is 24 in the source; the
  loop takes it as a parameter here. \<^verbatim>\<open>targetFps ? 1000 / targetFps : 0\<close>:
\<close>

definition targetFps :: "nat option" where
  "targetFps = Some 24"

definition minFrameTime :: "nat option \<Rightarrow> real" where
  "minFrameTime fps = (case fps of None \<Rightarrow> 0 | Some f \<Rightarrow> if f = 0 then 0 else 1000 / real f)"

subsection \<open>The layers' private state\<close>

text \<open>
  Each texture-backed layer holds the promises of its image loads, the state its
  \<^verbatim>\<open>ready\<close> callback assigns, and \<^verbatim>\<open>ready\<close> itself:
  \<^verbatim>\<open>Promise.all(loads).then(callback)\<close>, which is rejected by the first load that
  rejects, and otherwise settles when the last load is fulfilled, by running the callback.
  A promise that is no longer pending ignores a second settlement.
\<close>

record wind_state =
  wind_loads :: "LoadedTexture promise list"
  layers :: "Layer list"
  wind_ready :: "unit promise"

record pulse_state =
  pulse_load :: "LoadedTexture promise"
  layer :: "PulseMaskLayer option"
  pulse_ready :: "unit promise"

record sakura_state =
  sakura_loads :: "LoadedTexture promise list"
  particleGroups :: "ParticleGroup list"
  sakura_ready :: "unit promise"

definition wind_settled :: "nat \<Rightarrow> error + LoadedTexture \<Rightarrow> wind_state \<Rightarrow> wind_state" where
  "wind_settled i r st =
    (if i < length (wind_loads st) \<and> wind_loads st ! i = Pending then
       let loads = (wind_loads st)[i := settle r];
           st1 = st\<lparr>wind_loads := loads\<rparr>
       in if wind_ready st \<noteq> Pending then st1
          else (case r of
                  Inl e \<Rightarrow> st1\<lparr>wind_ready := Rejected e\<rparr>
                | Inr t \<Rightarrow>
                    (case all_fulfilled loads of
                       None \<Rightarrow> st1
                     | Some ts \<Rightarrow> st1\<lparr>layers := wind_layers ts, wind_ready := Fulfilled ()\<rparr>))
     else st)"

definition pulse_settled :: "error + LoadedTexture \<Rightarrow> pulse_state \<Rightarrow> pulse_state" where
  "pulse_settled r st =
    (if pulse_load st = Pending then
       (case r of
          Inl e \<Rightarrow> st\<lparr>pulse_load := Rejected e, pulse_ready := Rejected e\<rparr>
        | Inr t \<Rightarrow> st\<lparr>pulse_load := Fulfilled t, layer := Some (pulse_layer referenceSize t),
                       pulse_ready := Fulfilled ()\<rparr>)
     else st)"

definition sakura_settled ::
  "nat option \<Rightarrow> nat \<Rightarrow> error + LoadedTexture \<Rightarrow> sakura_state \<Rightarrow> sakura_state" where
  "sakura_settled al i r st =
    (if i < length (sakura_loads st) \<and> sakura_loads st ! i = Pending then
       let loads = (sakura_loads st)[i := settle r];
           st1 = st\<lparr>sakura_loads := loads\<rparr>
       in if sakura_ready st \<noteq> Pending then st1
          else (case r of
                  Inl e \<Rightarrow> st1\<lparr>sakura_ready := Rejected e\<rparr>
                | Inr t \<Rightarrow>
                    (case all_fulfilled loads of
                       None \<Rightarrow> st1
                     | Some ts \<Rightarrow>
                         (case particle_groups al ts of
                            Inl e \<Rightarrow> st1\<lparr>sakura_ready := Rejected e\<rparr>
                          | Inr gs \<Rightarrow> st1\<lparr>particleGroups := gs, sakura_ready := Fulfilled ()\<rparr>)))
     else st)"

subsection \<open>The scene\<close>

text \<open>
  \<open>loop\<close> holds the variables of the continuation (\<^verbatim>\<open>start\<close>, \<^verbatim>\<open>lastFrameTime\<close>)
  once it has run; \<open>raf_pending\<close> counts the animation callbacks requested and not yet
  run. Three logs record what happened: \<open>gl\<close> the WebGL calls of the render loop,
  \<open>drawn\<close> the layers' \<^verbatim>\<open>draw(t)\<close> invocations, \<open>accepted\<close> the timestamps of the
  frames that were not skipped (the latest first).
\<close>

record gl_objects =
  wind_program :: nat
  wind_quadBuffer :: nat
  fog_program :: nat
  fog_quadBuffer :: nat
  pulse_program :: nat
  pulse_quadBuffer :: nat
  sakura_program :: nat

record loop_state =
  start :: real
  lastFrameTime :: real

record scene =
  env :: environment
  objects :: gl_objects
  flow :: FogFlow
  wind :: wind_state
  pulse :: pulse_state
  sakura :: sakura_state
  loop :: "loop_state option"
  raf_pending :: nat
  the_canvas :: canvas
  gl :: "gl_call list"
  drawn :: "(layer_id \<times> real) list"
  accepted :: "real list"

definition init_scene :: "environment \<Rightarrow> gl_objects \<Rightarrow> scene" where
  "init_scene e objs =
    \<lparr> env = e, objects = objs, flow = default_flow,
      wind = \<lparr> wind_loads = [Pending, Pending, Pending, Pending], layers = [], wind_ready = Pending \<rparr>,
      pulse = \<lparr> pulse_load = Pending, layer = None, pulse_ready = Pending \<rparr>,
      sakura = \<lparr> sakura_loads = [Pending, Pending, Pending, Pending], particleGroups = [], sakura_ready = Pending \<rparr>,
      loop = None, raf_pending = 0,
      the_canvas = \<lparr> canvas_width = 300, canvas_height = 150, assignments = 0 \<rparr>,
      gl = [], drawn = [], accepted = [] \<rparr>"

text \<open>One layer's \<^verbatim>\<open>draw(t)\<close>, called by the orchestrator: the call is logged, and the
  layer issues its WebGL calls.\<close>

definition layer_draw :: "layer_id \<Rightarrow> scene \<Rightarrow> real \<Rightarrow> gl_call list" where
  "layer_draw l s t =
    (case l of
       PulseMask \<Rightarrow> pulse_draw referenceSize (pulse_program (objects s)) (pulse_quadBuffer (objects s))
                      (layer (pulse s)) t
     | Fog \<Rightarrow> fog_draw referenceSize (fog_program (objects s)) (fog_quadBuffer (objects s)) (flow s) t
     | Wind \<Rightarrow> wind_draw referenceSize (wind_program (objects s)) (wind_quadBuffer (objects s))
                 (layers (wind s)) t
     | Sakura \<Rightarrow> sakura_draw referenceSize (sakura_program (objects s)) (particleGroups (sakura s)) t)"

definition call_draw :: "layer_id \<Rightarrow> real \<Rightarrow> scene \<Rightarrow> scene" where
  "call_draw l t s = s\<lparr>gl := gl s @ layer_draw l s t, drawn := drawn s @ [(l, t)]\<rparr>"

text \<open>The draw sequence of an accepted frame: everything in \<^verbatim>\<open>render\<close> after the
  throttle, up to the request for the next callback. The drawing buffer has the size of
  the canvas (\<^verbatim>\<open>gl.drawingBufferWidth\<close>, \<^verbatim>\<open>gl.drawingBufferHeight\<close>).\<close>

definition draw_sequence :: "real \<Rightarrow> loop_state \<Rightarrow> scene \<Rightarrow> scene" where
  "draw_sequence now l s =
    (let s1 = s\<lparr>the_canvas := resizeCanvas (env s) (the_canvas s)\<rparr>;
         t = (now - start l) * 0.001;
         s2 = s1\<lparr>gl := gl s1 @ [ Viewport 0 0 (real_of_int (canvas_width (the_canvas s1)))
                                             (real_of_int (canvas_height (the_canvas s1))),
                                  ClearColor 0 0 0 0, ClearColorBuffer ]\<rparr>
     in call_draw Sakura t (call_draw Wind t (call_draw Fog t (call_draw PulseMask t s2))))"

definition requestAnimationFrame :: "scene \<Rightarrow> scene" where
  "requestAnimationFrame s = s\<lparr>raf_pending := raf_pending s + 1\<rparr>"

definition render :: "nat option \<Rightarrow> real \<Rightarrow> scene \<Rightarrow> scene" where
  "render fps now s =
    (case loop s of
       None \<Rightarrow> s
     | Some l \<Rightarrow>
         if minFrameTime fps > 0 \<and> now - lastFrameTime l < minFrameTime fps
         then requestAnimationFrame s
         else requestAnimationFrame
                (draw_sequence now l
                   (s\<lparr>loop := Some (l\<lparr>lastFrameTime := now\<rparr>), accepted := now # accepted s\<rparr>)))"

text \<open>The continuation of the orchestrator's \<^verbatim>\<open>Promise.all\<close>: it runs once, when all
  three readiness promises are fulfilled.\<close>

definition layers_ready :: "scene \<Rightarrow> bool" where
  "layers_ready s =
    (wind_ready (wind s) = Fulfilled () \<and> pulse_ready (pulse s) = Fulfilled ()
     \<and> sakura_ready (sakura s) = Fulfilled ())"

definition start_loop :: "scene \<Rightarrow> scene" where
  "start_loop s =
    (if loop s = None \<and> layers_ready s
     then requestAnimationFrame (s\<lparr>loop := Some \<lparr> start = clock (env s), lastFrameTime = 0 \<rparr>\<rparr>)
     else s)"

datatype event =
    TextureSettled layer_id nat "error + LoadedTexture"
  | AnimationFrame real
  | WindowResize
  | Environment environment

definition dispatch :: "nat option \<Rightarrow> event \<Rightarrow> scene \<Rightarrow> scene" where
  "dispatch fps ev s =
    (case ev of
       TextureSettled l i r \<Rightarrow>
         (case l of
            Wind \<Rightarrow> start_loop (s\<lparr>wind := wind_settled i r (wind s)\<rparr>)
          | PulseMask \<Rightarrow> (if i = 0 then start_loop (s\<lparr>pulse := pulse_settled r (pulse s)\<rparr>) else s)
          | Sakura \<Rightarrow> start_loop (s\<lparr>sakura := sakura_settled (alloc (env s)) i r (sakura s)\<rparr>)
          | Fog \<Rightarrow> s)
     | AnimationFrame now \<Rightarrow>
         (if raf_pending s > 0 then render fps now (s\<lparr>raf_pending := raf_pending s - 1\<rparr>) else s)
     | WindowResize \<Rightarrow> s\<lparr>the_canvas := resizeCanvas (env s) (the_canvas s)\<rparr>
     | Environment e \<Rightarrow> s\<lparr>env := e\<rparr>)"

fun run :: "nat option \<Rightarrow> event list \<Rightarrow> scene \<Rightarrow> scene" where
  "run fps [] s = s"
| "run fps (ev # evs) s = run fps evs (dispatch fps ev s)"

subsection \<open>Observing the canvas\<close>

text \<open>Two environments and the canvas as the page creates it: a laid-out canvas on a
  display with pixel ratio 1.5, and a canvas with no layout box (size 0 by 0).\<close>

definition example_environment :: environment where
  "example_environment =
    \<lparr> layout_width = 300.5, layout_height = 150.2, devicePixelRatio = 1.5, clock = 0, alloc = Some 0 \<rparr>"

definition hidden_environment :: environment where
  "hidden_environment =
    \<lparr> layout_width = 0, layout_height = 0, devicePixelRatio = 1, clock = 0, alloc = Some 0 \<rparr>"

definition default_canvas :: canvas where
  "default_canvas = \<lparr> canvas_width = 300, canvas_height = 150, assignments = 0 \<rparr>"

text \<open>The target size computed by \<^verbatim>\<open>resizeCanvas\<close>.\<close>

definition target_size :: "environment \<Rightarrow> int \<times> int" where
  "target_size e =
    (let dpr = min (if devicePixelRatio e = 0 then 1 else devicePixelRatio e) 2
     in (max 1 (js_round (layout_width e * dpr)), max 1 (js_round (layout_height e * dpr))))"

subsection \<open>Observing the wind shader\<close>

text \<open>A rect's own contribution at a fragment: its sway scaled by its mask value.\<close>

definition rect_contribution :: "wind_uniforms \<Rightarrow> vec2 \<Rightarrow> nat \<Rightarrow> vec2" where
  "rect_contribution u uv i = vscale (rectSway u i) (rectMask u uv i)"

text \<open>The rects the loop visits, and those among them whose mask at the fragment passes
  the shader's threshold (the rects the fragment lies inside).\<close>

definition visited_rects :: "wind_uniforms \<Rightarrow> nat list" where
  "visited_rects u = [0..<nat (min (uRectCount u) 8)]"

definition covering_rects :: "wind_uniforms \<Rightarrow> vec2 \<Rightarrow> nat list" where
  "covering_rects u uv = filter (\<lambda>i. rectMask u uv i > 0.0001) (visited_rects u)"

fun vsum :: "vec2 list \<Rightarrow> vec2" where
  "vsum [] = (0, 0)"
| "vsum (v # vs) = vadd v (vsum vs)"

definition vmax :: "vec2 \<Rightarrow> vec2 \<Rightarrow> vec2" where
  "vmax a b = (max (fst a) (fst b), max (snd a) (snd b))"

text \<open>Two unit rects that coincide, with feather 0.05, no spatial frequency, at time 0,
  and the fragment at their centre.\<close>

definition centre :: vec2 where
  "centre = (0.5, 0.5)"

definition overlap_uniforms :: wind_uniforms where
  "overlap_uniforms =
    \<lparr> uAmp = (0.02, 0.01), uFreq = (0, 0), uSpeed = (1.2, 1.0), uTime = 0, uRectCount = 2,
      uRects = [(0, 0, 1, 1), (0, 0, 1, 1)], uRectFeather = [0.05, 0.05],
      uDebugRects = 0, uRectBorder = 0.01, uDebugColor = (0.15, 0.95, 0.25) \<rparr>"

text \<open>A sprite without rects, the uniforms \<^verbatim>\<open>draw\<close> uploads for it, and a texture whose
  colour is its coordinate.\<close>

definition bare_sprite :: Layer where
  "bare_sprite =
    \<lparr> layer_texture = 7, layer_width = 200, layer_height = 100, layer_x = 10, layer_y = 20,
      amp = (0.012, 0.004), freq = (8, 5), speed = (1.2, 0.6),
      rects = None, rectCount = None, rectData = None, rectFeatherData = None \<rparr>"

definition bare_uniforms :: wind_uniforms where
  "bare_uniforms =
    \<lparr> uAmp = (0.012, 0.004), uFreq = (8, 5), uSpeed = (1.2, 0.6), uTime = 2, uRectCount = 0,
      uRects = replicate 8 (0, 0, 0, 0), uRectFeather = replicate 8 0,
      uDebugRects = 0, uRectBorder = 0.03, uDebugColor = (0.15, 0.95, 0.25) \<rparr>"

definition gradient :: "vec2 \<Rightarrow> vec4" where
  "gradient uv = (fst uv, snd uv, 0, 1)"

subsection \<open>Observing the fog layer\<close>

text \<open>A flow that leaves the optional fields out, and two partial updates: one holding
  only \<^verbatim>\<open>density\<close>, one holding only \<^verbatim>\<open>height\<close>.\<close>

definition bare_flow :: FogFlow where
  "bare_flow =
    \<lparr> flow_start = (0, 0), flow_end = (940, 0), flow_height = 260,
      flow_speed = None, flow_density = None, flow_feather = None \<rparr>"

definition no_keys :: FogFlowPartial where
  "no_keys =
    \<lparr> next_start = None, next_end = None, next_height = None,
      next_speed = None, next_density = None, next_feather = None \<rparr>"

definition only_density :: "real \<Rightarrow> FogFlowPartial" where
  "only_density v = no_keys\<lparr>next_density := Some (Some v)\<rparr>"

definition only_height :: "real \<Rightarrow> FogFlowPartial" where
  "only_height v = no_keys\<lparr>next_height := Some v\<rparr>"

subsection \<open>Observing the scene\<close>

text \<open>A promise that has been rejected; whether some image load of the scene has been.\<close>

fun is_rejected :: "'a promise \<Rightarrow> bool" where
  "is_rejected (Rejected e) = True"
| "is_rejected _ = False"

definition any_load_rejected :: "scene \<Rightarrow> bool" where
  "any_load_rejected s =
    list_ex is_rejected (wind_loads (wind s) @ [pulse_load (pulse s)] @ sakura_loads (sakura s))"

text \<open>What holds of a layer's private state at all times: while \<^verbatim>\<open>ready\<close> is not
  fulfilled the state its callback assigns is still empty; while it is pending no load has
  been rejected; once it is fulfilled every load is.\<close>

definition wind_inv :: "wind_state \<Rightarrow> bool" where
  "wind_inv st =
    ((wind_ready st \<noteq> Fulfilled () \<longrightarrow> layers st = [])
     \<and> (wind_ready st = Pending \<longrightarrow> \<not> list_ex is_rejected (wind_loads st))
     \<and> (wind_ready st = Fulfilled () \<longrightarrow> all_fulfilled (wind_loads st) \<noteq> None))"

definition pulse_inv :: "pulse_state \<Rightarrow> bool" where
  "pulse_inv st =
    ((pulse_ready st \<noteq> Fulfilled () \<longrightarrow> layer st = None)
     \<and> (pulse_ready st = Pending \<longrightarrow> pulse_load st = Pending)
     \<and> (pulse_ready st = Fulfilled () \<longrightarrow> \<not> is_rejected (pulse_load st) \<and> pulse_load st \<noteq> Pending))"

definition sakura_inv :: "sakura_state \<Rightarrow> bool" where
  "sakura_inv st =
    ((sakura_ready st \<noteq> Fulfilled () \<longrightarrow> particleGroups st = [])
     \<and> (sakura_ready st = Pending \<longrightarrow> \<not> list_ex is_rejected (sakura_loads st))
     \<and> (sakura_ready st = Fulfilled () \<longrightarrow> all_fulfilled (sakura_loads st) \<noteq> None))"

text \<open>What holds of the scene at all times: the layers' invariants, and until the
  continuation has run nothing is requested, drawn or accepted; it has run only if every
  readiness promise is fulfilled.\<close>

definition scene_inv :: "scene \<Rightarrow> bool" where
  "scene_inv s =
    (wind_inv (wind s) \<and> pulse_inv (pulse s) \<and> sakura_inv (sakura s)
     \<and> (case loop s of
          None \<Rightarrow> raf_pending s = 0 \<and> gl s = [] \<and> drawn s = [] \<and> accepted s = []
        | Some l \<Rightarrow> layers_ready s))"

text \<open>A run of the page: the handles of the layers' GL objects, an image as it loads, the
  nine loads succeeding in order, and one load failing.\<close>

definition example_objects :: gl_objects where
  "example_objects =
    \<lparr> wind_program = 1, wind_quadBuffer = 2, fog_program = 3, fog_quadBuffer = 4,
      pulse_program = 5, pulse_quadBuffer = 6, sakura_program = 7 \<rparr>"

definition example_image :: "nat \<Rightarrow> LoadedTexture" where
  "example_image h = \<lparr> texture = h, width = 400, height = 200 \<rparr>"

definition all_loaded :: "event list" where
  "all_loaded =
    [ TextureSettled Wind 0 (Inr (example_image 10)), TextureSettled Wind 1 (Inr (example_image 11)),
      TextureSettled Wind 2 (Inr (example_image 12)), TextureSettled Wind 3 (Inr (example_image 13)),
      TextureSettled PulseMask 0 (Inr (example_image 14)),
      TextureSettled Sakura 0 (Inr (example_image 15)), TextureSettled Sakura 1 (Inr (example_image 16)),
      TextureSettled Sakura 2 (Inr (example_image 17)), TextureSettled Sakura 3 (Inr (example_image 18)) ]"

definition one_failed :: "event list" where
  "one_failed =
    [ TextureSettled Wind 0 (Inr (example_image 10)),
      TextureSettled Sakura 2 (Inl (Error ''Failed to load petal-3.png'')) ]"

definition started :: scene where
  "started = run targetFps all_loaded (init_scene example_environment example_objects)"

text \<open>Timestamps, the latest first, each at least \<open>m\<close> after the one before it.\<close>

fun spaced :: "real \<Rightarrow> real list \<Rightarrow> bool" where
  "spaced m (b # a # r) = (b - a \<ge> m \<and> spaced m (a # r))"
| "spaced m _ = True"

text \<open>What holds of the loop at all times: the accepted timestamps are spaced, the latest
  is \<^verbatim>\<open>lastFrameTime\<close>, and each accepted frame has drawn the four layers once.\<close>

definition pacing_inv :: "real \<Rightarrow> scene \<Rightarrow> bool" where
  "pacing_inv m s =
    (length (drawn s) = 4 * length (accepted s)
     \<and> (case loop s of
          None \<Rightarrow> accepted s = []
        | Some l \<Rightarrow> spaced m (accepted s)
                    \<and> (case accepted s of [] \<Rightarrow> True | a # r \<Rightarrow> lastFrameTime l = a)))"

definition frames :: "event list" where
  "frames = [AnimationFrame 50, AnimationFrame 60, AnimationFrame 100]"

definition failed :: scene where
  "failed = run targetFps one_failed (init_scene example_environment example_objects)"

subsection \<open>Observing the particle shader\<close>

text \<open>The two displacements the vertex shader adds to the travelled position: the wind
  sway \<^verbatim>\<open>uWind * wind * uWindAmp\<close>, and the rotated, perspective-scaled corner of the
  quad, \<^verbatim>\<open>offset = local.xy * perspective\<close>.\<close>

definition particle_sway :: "particle_uniforms \<Rightarrow> particle_instance \<Rightarrow> vec2" where
  "particle_sway u a =
    (let pos0 = particle_flow_pos u a;
         wind = sin ((snd pos0 / snd (uPResolution u)) * uPWindFreq u + uPTime u * uPWindSpeed u
                     + aInstanceSeed a)
     in vscale (vscale (uPWind u) wind) (uPWindAmp u))"

definition particle_corner :: "particle_uniforms \<Rightarrow> particle_instance \<Rightarrow> vec2 \<Rightarrow> vec2" where
  "particle_corner u a aPosition =
    (let progress = particle_progress u a;
         scaleBoost = mix 0.6 1.3 progress;
         lxy = vscale (vmul aPosition (aInstanceSize a)) scaleBoost;
         lx0 = fst lxy; ly0 = snd lxy; lz0 = - aInstanceDepth a * progress;
         rx = fst (aInstanceRot a) + fst (aInstanceRotSpeed a) * uPTime u;
         ry = fst (snd (aInstanceRot a)) + fst (snd (aInstanceRotSpeed a)) * uPTime u;
         rz = snd (snd (aInstanceRot a)) + snd (snd (aInstanceRotSpeed a)) * uPTime u;
         cx = cos rx; sx = sin rx; cy = cos ry; sy = sin ry; cz = cos rz; sz = sin rz;
         lx1 = lx0; ly1 = ly0 * cx - lz0 * sx; lz1 = ly0 * sx + lz0 * cx;
         lx2 = lx1 * cy + lz1 * sy; ly2 = ly1; lz2 = - lx1 * sy + lz1 * cy;
         lx3 = lx2 * cz - ly2 * sz; ly3 = lx2 * sz + ly2 * cz; lz3 = lz2;
         perspective = 1 / (1 + lz3 * 0.002)
     in vscale (lx3, ly3) perspective)"

text \<open>A petal a fifth of the way from the end of its second cycle, in still air, seen at
  the centre of its quad.\<close>

definition example_petal :: particle_instance where
  "example_petal =
    \<lparr> aInstancePos = (280, 0), aInstanceVel = (1000, 900), aInstanceSize = (20, 20),
      aInstanceRot = (0, 0, 0), aInstanceRotSpeed = (1, 1, 1),
      aInstanceSpeed = 1 / 20, aInstanceDepth = 0, aInstanceSeed = 3 / 10 \<rparr>"

definition still_air :: particle_uniforms where
  "still_air =
    \<lparr> uPResolution = (1920, 1080), uPTime = 30, uPWind = (1, 0.15), uPWindFreq = 6,
      uPWindSpeed = 1.4, uPWindAmp = 0 \<rparr>"

section \<open>Properties\<close>

subsection \<open>Particle progress\<close>

lemma fract_frac: "fract x = frac x"
  by (simp add: fract_def frac_def)

lemma particle_gl_Position:
  "gl_Position (particleVertexSource u a p uv) =
     (((fst (particle_flow_pos u a) + fst (particle_sway u a)) / fst (uPResolution u)) * 2 - 1
        + fst (particle_corner u a p) / fst (uPResolution u) * 2,
      1 - ((snd (particle_flow_pos u a) + snd (particle_sway u a)) / snd (uPResolution u)) * 2
        + - snd (particle_corner u a p) / snd (uPResolution u) * 2,
      0, 1)"
  by (simp add: particleVertexSource_def particle_sway_def particle_corner_def Let_def vadd_def)

lemma particle_sway_still: "uPWindAmp u = 0 \<Longrightarrow> particle_sway u a = (0, 0)"
  by (simp add: particle_sway_def Let_def vscale_def)

lemma particle_corner_centre: "aInstanceDepth a = 0 \<Longrightarrow> particle_corner u a (0, 0) = (0, 0)"
  by (simp add: particle_corner_def Let_def vscale_def vmul_def)

text \<open>
  C5. For every particle instance with speed s and seed k and every time t, the progress
  computed by the vertex shader is frac (s * t + k), it lies in [0, 1), the instance
  position before the wind sway is spawn position plus velocity times that progress, and
  this progress is the value the shader hands on as \<^verbatim>\<open>vLife\<close>. The vertex the shader
  emits is that position, plus the wind sway and the corner of the quad, in normalised
  device coordinates; in still air, at the centre of a quad of depth 0, it is that
  position itself.
\<close>

theorem particle_progress_frac:
  "particle_progress u a = frac (aInstanceSpeed a * uPTime u + aInstanceSeed a)
   \<and> 0 \<le> particle_progress u a \<and> particle_progress u a < 1
   \<and> particle_flow_pos u a =
       (fst (aInstancePos a) + fst (aInstanceVel a) * particle_progress u a,
        snd (aInstancePos a) + snd (aInstanceVel a) * particle_progress u a)
   \<and> vLife (particleVertexSource u a p uv) = particle_progress u a
   \<and> vLife (particleVertexSource u a p uv) = frac (aInstanceSpeed a * uPTime u + aInstanceSeed a)
   \<and> gl_Position (particleVertexSource u a p uv) =
       (((fst (aInstancePos a)
            + fst (aInstanceVel a) * frac (aInstanceSpeed a * uPTime u + aInstanceSeed a)
            + fst (particle_sway u a)) / fst (uPResolution u)) * 2 - 1
          + fst (particle_corner u a p) / fst (uPResolution u) * 2,
        1 - ((snd (aInstancePos a)
                + snd (aInstanceVel a) * frac (aInstanceSpeed a * uPTime u + aInstanceSeed a)
                + snd (particle_sway u a)) / snd (uPResolution u)) * 2
          + - snd (particle_corner u a p) / snd (uPResolution u) * 2,
        0, 1)
   \<and> (uPWindAmp u = 0 \<and> aInstanceDepth a = 0 \<longrightarrow>
        gl_Position (particleVertexSource u a (0, 0) uv) =
          (((fst (aInstancePos a)
               + fst (aInstanceVel a) * frac (aInstanceSpeed a * uPTime u + aInstanceSeed a))
              / fst (uPResolution u)) * 2 - 1,
           1 - ((snd (aInstancePos a)
                  + snd (aInstanceVel a) * frac (aInstanceSpeed a * uPTime u + aInstanceSeed a))
                 / snd (uPResolution u)) * 2,
           0, 1))"
proof -
  have e: "particle_progress u a = frac (aInstanceSpeed a * uPTime u + aInstanceSeed a)"
    by (simp add: particle_progress_def fract_frac mult.commute)
  have lo: "0 \<le> particle_progress u a"
    unfolding e by (rule frac_ge_0)
  have hi: "particle_progress u a < 1"
    unfolding e by (rule frac_lt_1)
  have pos: "particle_flow_pos u a =
       (fst (aInstancePos a) + fst (aInstanceVel a) * particle_progress u a,
        snd (aInstancePos a) + snd (aInstanceVel a) * particle_progress u a)"
    by (simp add: particle_flow_pos_def vadd_def vscale_def)
  have life: "vLife (particleVertexSource u a p uv) = particle_progress u a"
    by (simp add: particleVertexSource_def Let_def)
  have g: "gl_Position (particleVertexSource u a q uv) =
       (((fst (aInstancePos a)
            + fst (aInstanceVel a) * frac (aInstanceSpeed a * uPTime u + aInstanceSeed a)
            + fst (particle_sway u a)) / fst (uPResolution u)) * 2 - 1
          + fst (particle_corner u a q) / fst (uPResolution u) * 2,
        1 - ((snd (aInstancePos a)
                + snd (aInstanceVel a) * frac (aInstanceSpeed a * uPTime u + aInstanceSeed a)
                + snd (particle_sway u a)) / snd (uPResolution u)) * 2
          + - snd (particle_corner u a q) / snd (uPResolution u) * 2,
        0, 1)" for q
    unfolding particle_gl_Position pos e by simp
  have still: "gl_Position (particleVertexSource u a (0, 0) uv) =
          (((fst (aInstancePos a)
               + fst (aInstanceVel a) * frac (aInstanceSpeed a * uPTime u + aInstanceSeed a))
              / fst (uPResolution u)) * 2 - 1,
           1 - ((snd (aInstancePos a)
                  + snd (aInstanceVel a) * frac (aInstanceSpeed a * uPTime u + aInstanceSeed a))
                 / snd (uPResolution u)) * 2,
           0, 1)" if "uPWindAmp u = 0" "aInstanceDepth a = 0"
    unfolding g [of "(0, 0)"] using that by (simp add: particle_sway_still particle_corner_centre)
  from e lo hi pos life g [of p] still show ?thesis by simp
qed

theorem particle_progress_frac_witness:
  "uPWindAmp still_air = 0 \<and> aInstanceDepth example_petal = 0
   \<and> particle_progress still_air example_petal = 4 / 5
   \<and> particle_flow_pos still_air example_petal = (1080, 720)
   \<and> gl_Position (particleVertexSource still_air example_petal (0, 0) (0, 0)) = (1 / 8, - 1 / 3, 0, 1)"
proof -
  have h: "uPWindAmp still_air = 0" "aInstanceDepth example_petal = 0"
    by (simp_all add: still_air_def example_petal_def)
  have f: "frac (aInstanceSpeed example_petal * uPTime still_air + aInstanceSeed example_petal) = 4 / 5"
    by (simp add: still_air_def example_petal_def frac_def)
  note t = particle_progress_frac [of still_air example_petal "(0, 0)" "(0, 0)", unfolded f]
  from t have p: "particle_progress still_air example_petal = 4 / 5" by blast
  from t p have q: "particle_flow_pos still_air example_petal = (1080, 720)"
    by (simp add: example_petal_def)
  from t h have "gl_Position (particleVertexSource still_air example_petal (0, 0) (0, 0))
      = (((fst (aInstancePos example_petal) + fst (aInstanceVel example_petal) * (4 / 5))
              / fst (uPResolution still_air)) * 2 - 1,
           1 - ((snd (aInstancePos example_petal) + snd (aInstanceVel example_petal) * (4 / 5))
                 / snd (uPResolution still_air)) * 2,
           0, 1)"
    by blast
  then have g: "gl_Position (particleVertexSource still_air example_petal (0, 0) (0, 0))
      = (1 / 8, - 1 / 3, 0, 1)"
    by (simp add: example_petal_def still_air_def)
  from h p q g show ?thesis by blast
qed

subsection \<open>Linking a program\<close>

lemma createProgram_linked:
  assumes "createProgram_ok d" "createShader_ok d VERTEX_SHADER" "createShader_ok d FRAGMENT_SHADER"
    and "compileStatus d VERTEX_SHADER vs = Success" "compileStatus d FRAGMENT_SHADER fs = Success"
  shows "createProgram d vs fs s =
    (let p = next_handle s;
         s4 = issue [CreateProgram (Some p),
                     CreateShader VERTEX_SHADER (Some (p + 1)), ShaderSource (p + 1) vs, CompileShader (p + 1),
                     CreateShader FRAGMENT_SHADER (Some (p + 2)), ShaderSource (p + 2) fs, CompileShader (p + 2),
                     AttachShader p (p + 1), AttachShader p (p + 2), LinkProgram p,
                     DeleteShader (p + 1), DeleteShader (p + 2)] (s\<lparr>next_handle := p + 3\<rparr>)
     in case linkStatus d vs fs of
          Failure info \<Rightarrow> (Inl (Error (log_or info ''Program link error'')), issue [DeleteProgram p] s4)
        | Success \<Rightarrow> (Inr p, s4))"
  using assms
  by (simp add: createProgram_def createShader_def issue_def Let_def split: outcome.splits)

text \<open>
  C8. When the program object and both shaders are created and both sources compile,
  \<^verbatim>\<open>createProgram\<close> deletes both shader objects whatever the outcome of linking; when
  linking fails it also deletes the program and throws an error whose message is the
  linker's log (\<^verbatim>\<open>Program link error\<close> when the log is \<^verbatim>\<open>null\<close>); when linking
  succeeds it returns the program's handle, which it has linked and not deleted.
\<close>

theorem createProgram_releases_shaders:
  assumes "createProgram_ok d" "createShader_ok d VERTEX_SHADER" "createShader_ok d FRAGMENT_SHADER"
    and "compileStatus d VERTEX_SHADER vs = Success" "compileStatus d FRAGMENT_SHADER fs = Success"
    and "createProgram d vs fs s = (r, s')"
  shows "calls s' = calls s @ calls_since s s'
    \<and> CreateShader VERTEX_SHADER (Some (next_handle s + 1)) \<in> set (calls_since s s')
    \<and> CreateShader FRAGMENT_SHADER (Some (next_handle s + 2)) \<in> set (calls_since s s')
    \<and> DeleteShader (next_handle s + 1) \<in> set (calls_since s s')
    \<and> DeleteShader (next_handle s + 2) \<in> set (calls_since s s')
    \<and> (case linkStatus d vs fs of
          Success \<Rightarrow> r = Inr (next_handle s) \<and> LinkProgram (next_handle s) \<in> set (calls_since s s')
                      \<and> DeleteProgram (next_handle s) \<notin> set (calls_since s s')
        | Failure info \<Rightarrow> r = Inl (Error (log_or info ''Program link error''))
                      \<and> DeleteProgram (next_handle s) \<in> set (calls_since s s'))"
proof (cases "linkStatus d vs fs")
  case Success
  with assms show ?thesis
    by (auto simp: createProgram_linked calls_since_def issue_def Let_def)
next
  case (Failure info)
  with assms show ?thesis
    by (auto simp: createProgram_linked calls_since_def issue_def Let_def)
qed

theorem createProgram_releases_shaders_witness:
  "createProgram_ok (example_driver (Failure (Some ''link failed'')))
   \<and> createProgram (example_driver (Failure (Some ''link failed''))) ''v'' ''f'' fresh_gl
       = (Inl (Error ''link failed''),
          \<lparr> next_handle = 3,
            calls = [CreateProgram (Some 0),
                     CreateShader VERTEX_SHADER (Some 1), ShaderSource 1 ''v'', CompileShader 1,
                     CreateShader FRAGMENT_SHADER (Some 2), ShaderSource 2 ''f'', CompileShader 2,
                     AttachShader 0 1, AttachShader 0 2, LinkProgram 0,
                     DeleteShader 1, DeleteShader 2, DeleteProgram 0] \<rparr>)
   \<and> DeleteShader 1 \<in> set (calls_since fresh_gl (snd (createProgram (example_driver (Failure (Some ''link failed''))) ''v'' ''f'' fresh_gl)))
   \<and> DeleteProgram 0 \<in> set (calls_since fresh_gl (snd (createProgram (example_driver (Failure (Some ''link failed''))) ''v'' ''f'' fresh_gl)))"
  using createProgram_releases_shaders [of "example_driver (Failure (Some ''link failed''))" "''v''" "''f''" fresh_gl
      "fst (createProgram (example_driver (Failure (Some ''link failed''))) ''v'' ''f'' fresh_gl)"
      "snd (createProgram (example_driver (Failure (Some ''link failed''))) ''v'' ''f'' fresh_gl)"]
  by (simp add: example_driver_def fresh_gl_def createProgram_def createShader_def issue_def
      log_or_def calls_since_def Let_def)

subsection \<open>Resizing the canvas\<close>

text \<open>
  C6 (amended). After \<^verbatim>\<open>resizeCanvas\<close> the canvas is
  \<^verbatim>\<open>max(1, round(w * min(d || 1, 2)))\<close> by \<^verbatim>\<open>max(1, round(h * min(d || 1, 2)))\<close>;
  the properties are assigned only when this target differs from the current size
  (otherwise the canvas is untouched); and where the pixel ratio is not 0 and the rounded
  product is at least 1, the size is \<^verbatim>\<open>round(w * min(d, 2))\<close>, as the claim has it.
\<close>

theorem resizeCanvas_target:
  "canvas_width (resizeCanvas e c) = fst (target_size e)
   \<and> canvas_height (resizeCanvas e c) = snd (target_size e)
   \<and> (if (canvas_width c, canvas_height c) = target_size e
       then resizeCanvas e c = c
       else assignments (resizeCanvas e c) = assignments c + 2)
   \<and> (if devicePixelRatio e = 0 \<or> js_round (layout_width e * min (devicePixelRatio e) 2) < 1
       then True
       else canvas_width (resizeCanvas e c) = js_round (layout_width e * min (devicePixelRatio e) 2))
   \<and> (if devicePixelRatio e = 0 \<or> js_round (layout_height e * min (devicePixelRatio e) 2) < 1
       then True
       else canvas_height (resizeCanvas e c) = js_round (layout_height e * min (devicePixelRatio e) 2))"
  by (auto simp: resizeCanvas_def target_size_def Let_def)

theorem resizeCanvas_target_witness:
  "resizeCanvas example_environment default_canvas
     = \<lparr> canvas_width = 451, canvas_height = 225, assignments = 2 \<rparr>
   \<and> target_size example_environment = (451, 225)
   \<and> resizeCanvas example_environment (resizeCanvas example_environment default_canvas)
     = resizeCanvas example_environment default_canvas"
  using resizeCanvas_target [of example_environment default_canvas]
    resizeCanvas_target [of example_environment "resizeCanvas example_environment default_canvas"]
  by (simp add: resizeCanvas_def target_size_def example_environment_def default_canvas_def
      js_round_def Let_def)

text \<open>
  C6 as stated fails for a canvas without a layout box: the code keeps the drawing buffer
  at least 1 by 1, and \<^verbatim>\<open>round(0 * min(1, 2))\<close> is 0.
\<close>

theorem resizeCanvas_hidden_counterexample:
  "\<not> (\<forall>e c. canvas_width (resizeCanvas e c) = js_round (layout_width e * min (devicePixelRatio e) 2)
            \<and> canvas_height (resizeCanvas e c) = js_round (layout_height e * min (devicePixelRatio e) 2))"
proof
  assume "\<forall>e c. canvas_width (resizeCanvas e c) = js_round (layout_width e * min (devicePixelRatio e) 2)
            \<and> canvas_height (resizeCanvas e c) = js_round (layout_height e * min (devicePixelRatio e) 2)"
  then have "canvas_width (resizeCanvas hidden_environment default_canvas)
      = js_round (layout_width hidden_environment * min (devicePixelRatio hidden_environment) 2)"
    by blast
  then show False
    by (simp add: resizeCanvas_def hidden_environment_def default_canvas_def js_round_def Let_def)
qed

subsection \<open>Overlapping rects in the wind shader\<close>

lemma vadd_assoc: "vadd (vadd a b) c = vadd a (vadd b c)"
  by (simp add: vadd_def)

lemma vadd_zero: "vadd a (0, 0) = a"
  by (simp add: vadd_def)

lemma wind_loop_offset:
  "fst (wind_loop u uv i acc) =
     vadd (fst acc) (vsum (map (rect_contribution u uv)
                           (filter (\<lambda>j. rectMask u uv j > 0.0001) [i..<nat (min (uRectCount u) 8)])))"
proof (induction u uv i acc rule: wind_loop.induct)
  case (1 u uv i acc)
  show ?case
  proof (cases "i < 8 \<and> int i < uRectCount u")
    case False
    then have "[i..<nat (min (uRectCount u) 8)] = []" by auto
    with False show ?thesis
      by (subst wind_loop.simps) (auto simp: vadd_zero)
  next
    case True
    then have up: "[i..<nat (min (uRectCount u) 8)] = i # [Suc i..<nat (min (uRectCount u) 8)]"
      by (intro upt_conv_Cons) auto
    from True have c: "i < 8" "\<not> uRectCount u \<le> int i" by auto
    show ?thesis
      apply (subst wind_loop.simps)
      apply (simp only: c if_True if_False Let_def)
      apply (subst "1.IH"[OF c refl refl refl refl refl])
      apply (simp add: up rect_contribution_def vadd_assoc vadd_zero)
      done
  qed
qed

lemma wind_loop_no_rects: "uRectCount u \<le> 0 \<Longrightarrow> wind_loop u uv 0 acc = acc"
  by (subst wind_loop.simps) simp

lemma wind_fragment_sampled:
  "uDebugRects u \<le> 0.5 \<Longrightarrow> wind_fragmentSource tex u uv = tex (wind_sample_uv u uv)"
proof (cases "uRectCount u = 0 \<and> uDebugRects u < 0.5")
  case True
  then have "wind_offset u uv = (0, 0)"
    by (simp add: wind_offset_def wind_loop_no_rects)
  with True show ?thesis
    by (simp add: wind_fragmentSource_def wind_sample_uv_def vadd_def vmul_def)
next
  case False
  assume "uDebugRects u \<le> 0.5"
  with False show ?thesis
    by (auto simp: wind_fragmentSource_def Let_def)
qed

text \<open>
  C3. At every fragment the offset accumulated by the wind shader is the arithmetic sum,
  over the rects the fragment lies inside (mask above the shader's threshold 0.0001), of
  each rect's own contribution: its centre-derived sine sway scaled by its mask value.
  With debug rendering off, the colour the shader returns is the texture sampled at the
  fragment's coordinate plus that sum scaled by \<^verbatim>\<open>uAmp\<close>. For a fragment inside two
  rects the offset is the sum of the two contributions, and the texture is sampled there.
\<close>

theorem wind_offset_is_sum:
  "wind_offset u uv = vsum (map (rect_contribution u uv) (covering_rects u uv))
   \<and> wind_sample_uv u uv
       = vadd uv (vmul (vsum (map (rect_contribution u uv) (covering_rects u uv))) (uAmp u))
   \<and> (if uRectCount u = 2 \<and> rectMask u uv 0 > 0.0001 \<and> rectMask u uv 1 > 0.0001
       then wind_offset u uv
              = (fst (rect_contribution u uv 0) + fst (rect_contribution u uv 1),
                 snd (rect_contribution u uv 0) + snd (rect_contribution u uv 1))
       else True)
   \<and> (uDebugRects u \<le> 0.5 \<longrightarrow>
        wind_fragmentSource tex u uv
          = tex (vadd uv (vmul (vsum (map (rect_contribution u uv) (covering_rects u uv))) (uAmp u))))
   \<and> (uDebugRects u \<le> 0.5 \<and> uRectCount u = 2
        \<and> rectMask u uv 0 > 0.0001 \<and> rectMask u uv 1 > 0.0001 \<longrightarrow>
        wind_fragmentSource tex u uv
          = tex (fst uv + (fst (rect_contribution u uv 0) + fst (rect_contribution u uv 1)) * fst (uAmp u),
                 snd uv + (snd (rect_contribution u uv 0) + snd (rect_contribution u uv 1)) * snd (uAmp u)))
   \<and> rect_contribution u uv i =
       (sin (((fst (snd (rect_at u i)) + snd (snd (snd (rect_at u i))) * 0.5) * fst (uFreq u) * 2 * PI)
             + (uTime u * fst (uSpeed u))) * rectMask u uv i,
        sin (((fst (rect_at u i) + fst (snd (snd (rect_at u i))) * 0.5) * snd (uFreq u) * 2 * PI)
             + (uTime u * snd (uSpeed u)) + PI * 0.5) * rectMask u uv i)"
proof -
  have s: "wind_offset u uv = vsum (map (rect_contribution u uv) (covering_rects u uv))"
    by (simp add: wind_offset_def wind_loop_offset covering_rects_def visited_rects_def vadd_def)
  have two: "[0..<2] = [0, Suc 0]" by (simp add: upt_rec)
  have t: "uRectCount u = 2 \<Longrightarrow> rectMask u uv 0 > 0.0001 \<Longrightarrow> rectMask u uv 1 > 0.0001 \<Longrightarrow>
      vsum (map (rect_contribution u uv) (covering_rects u uv))
        = (fst (rect_contribution u uv 0) + fst (rect_contribution u uv 1),
           snd (rect_contribution u uv 0) + snd (rect_contribution u uv 1))"
    by (simp add: covering_rects_def visited_rects_def two vadd_def)
  have w: "wind_sample_uv u uv
       = vadd uv (vmul (vsum (map (rect_contribution u uv) (covering_rects u uv))) (uAmp u))"
    by (simp add: wind_sample_uv_def s)
  have f: "wind_fragmentSource tex u uv
          = tex (vadd uv (vmul (vsum (map (rect_contribution u uv) (covering_rects u uv))) (uAmp u)))"
    if "uDebugRects u \<le> 0.5"
    using wind_fragment_sampled [OF that] by (simp add: w)
  have f2: "wind_fragmentSource tex u uv
          = tex (fst uv + (fst (rect_contribution u uv 0) + fst (rect_contribution u uv 1)) * fst (uAmp u),
                 snd uv + (snd (rect_contribution u uv 0) + snd (rect_contribution u uv 1)) * snd (uAmp u))"
    if "uDebugRects u \<le> 0.5" "uRectCount u = 2" "rectMask u uv 0 > 0.0001" "rectMask u uv 1 > 0.0001"
    unfolding f [OF that(1)] t [OF that(2-4)] by (simp add: vadd_def vmul_def)
  have c: "rect_contribution u uv i =
       (sin (((fst (snd (rect_at u i)) + snd (snd (snd (rect_at u i))) * 0.5) * fst (uFreq u) * 2 * PI)
             + (uTime u * fst (uSpeed u))) * rectMask u uv i,
        sin (((fst (rect_at u i) + fst (snd (snd (rect_at u i))) * 0.5) * snd (uFreq u) * 2 * PI)
             + (uTime u * snd (uSpeed u)) + PI * 0.5) * rectMask u uv i)"
    by (cases "rect_at u i") (simp add: rect_contribution_def rectSway_def vscale_def Let_def)
  from s w t f f2 c show ?thesis by simp
qed

lemma smoothstep_hi:
  assumes "e0 < e1" "e1 \<le> x"
  shows "smoothstep e0 e1 x = 1"
proof -
  from assms have "1 \<le> (x - e0) / (e1 - e0)" by (simp add: le_divide_eq)
  then have "clamp ((x - e0) / (e1 - e0)) 0 1 = 1" by (simp add: clamp_def)
  then show ?thesis by (simp add: smoothstep_def)
qed

lemma smoothstep_lo:
  assumes "e0 < e1" "x \<le> e0"
  shows "smoothstep e0 e1 x = 0"
proof -
  from assms have "(x - e0) / (e1 - e0) \<le> 0" by (simp add: divide_le_0_iff)
  then have "clamp ((x - e0) / (e1 - e0)) 0 1 = 0" by (simp add: clamp_def)
  then show ?thesis by (simp add: smoothstep_def)
qed

lemma overlap_count: "uRectCount overlap_uniforms = 2"
  by (simp add: overlap_uniforms_def)

lemma overlap_mask:
  "rectMask overlap_uniforms centre 0 = 1" "rectMask overlap_uniforms centre (Suc 0) = 1"
  by (simp_all add: rectMask_def rect_at_def feather_at_def overlap_uniforms_def centre_def Let_def
        smoothstep_hi smoothstep_lo)

lemma overlap_sway:
  "rectSway overlap_uniforms 0 = (0, sin (PI * 0.5))"
  "rectSway overlap_uniforms (Suc 0) = (0, sin (PI * 0.5))"
  by (simp_all add: rectSway_def rect_at_def overlap_uniforms_def Let_def)

lemma sin_half_PI_pos: "0 < sin (PI * 0.5)"
proof (rule sin_gt_zero)
  show "0 < PI * 0.5" by (simp add: PI_def)
  have "PI * 0.5 < 2" by (simp add: PI_def)
  with pi_ge_two show "PI * 0.5 < pi" by linarith
qed

text \<open>
  C4. The shader does not take the maximum of the contributions of overlapping rects, as
  the comment above its loop says (\<^verbatim>\<open>combined by max/union\<close>): it adds them. At the
  centre of two coinciding unit rects each contribution is \<open>(0, sin (PI / 2))\<close>, so is
  their maximum, and the shader's offset is twice that.
\<close>

theorem wind_overlap_sum_not_max:
  "rect_contribution overlap_uniforms centre 0 = (0, sin (PI * 0.5))
   \<and> rect_contribution overlap_uniforms centre 1 = (0, sin (PI * 0.5))
   \<and> wind_offset overlap_uniforms centre = (0, 2 * sin (PI * 0.5))
   \<and> vmax (rect_contribution overlap_uniforms centre 0)
           (rect_contribution overlap_uniforms centre 1) = (0, sin (PI * 0.5))
   \<and> wind_offset overlap_uniforms centre
       \<noteq> vmax (rect_contribution overlap_uniforms centre 0)
               (rect_contribution overlap_uniforms centre 1)"
proof -
  have c0: "rect_contribution overlap_uniforms centre 0 = (0, sin (PI * 0.5))"
    by (simp add: rect_contribution_def overlap_mask overlap_sway vscale_def)
  have c1: "rect_contribution overlap_uniforms centre (Suc 0) = (0, sin (PI * 0.5))"
    by (simp add: rect_contribution_def overlap_mask overlap_sway vscale_def)
  have two: "[0..<2] = [0, Suc 0]" by (simp add: upt_rec)
  have cov: "covering_rects overlap_uniforms centre = [0, 1]"
    by (simp add: covering_rects_def visited_rects_def overlap_count two overlap_mask)
  have "wind_offset overlap_uniforms centre
      = vsum (map (rect_contribution overlap_uniforms centre)
               (filter (\<lambda>j. rectMask overlap_uniforms centre j > 0.0001)
                  [0..<nat (min (uRectCount overlap_uniforms) 8)]))"
    by (simp add: wind_offset_def wind_loop_offset vadd_def)
  also have "\<dots> = vsum (map (rect_contribution overlap_uniforms centre)
                       (covering_rects overlap_uniforms centre))"
    by (simp add: covering_rects_def visited_rects_def)
  also have "\<dots> = (0, 2 * sin (PI * 0.5))"
    using c0 c1 by (simp add: cov vadd_def)
  finally have off: "wind_offset overlap_uniforms centre = (0, 2 * sin (PI * 0.5))" .
  have mx: "vmax (rect_contribution overlap_uniforms centre 0)
           (rect_contribution overlap_uniforms centre 1) = (0, sin (PI * 0.5))"
    by (simp add: c0 c1 vmax_def)
  from sin_half_PI_pos have ne: "(0::real, 2 * sin (PI * 0.5)) \<noteq> (0, sin (PI * 0.5))"
    by simp
  from c0 c1 off mx ne show ?thesis by simp
qed

lemma overlap_rects:
  "rect_at overlap_uniforms 0 = (0, 0, 1, 1)" "rect_at overlap_uniforms (Suc 0) = (0, 0, 1, 1)"
  "uFreq overlap_uniforms = (0, 0)" "uSpeed overlap_uniforms = (1.2, 1.0)"
  "uTime overlap_uniforms = 0" "uAmp overlap_uniforms = (0.02, 0.01)"
  "uDebugRects overlap_uniforms = 0"
  by (simp_all add: rect_at_def overlap_uniforms_def)

lemma overlap_covering: "covering_rects overlap_uniforms centre = [0, Suc 0]"
proof -
  have two: "[0..<2] = [0, Suc 0]" by (simp add: upt_rec)
  show ?thesis
    by (simp add: covering_rects_def visited_rects_def overlap_count two overlap_mask)
qed

theorem wind_offset_is_sum_witness:
  "uRectCount overlap_uniforms = 2
   \<and> rectMask overlap_uniforms centre 0 > 0.0001
   \<and> rectMask overlap_uniforms centre 1 > 0.0001
   \<and> wind_offset overlap_uniforms centre
       = (fst (rect_contribution overlap_uniforms centre 0)
            + fst (rect_contribution overlap_uniforms centre 1),
          snd (rect_contribution overlap_uniforms centre 0)
            + snd (rect_contribution overlap_uniforms centre 1))
   \<and> uDebugRects overlap_uniforms \<le> 0.5
   \<and> rect_contribution overlap_uniforms centre 0 = (0, sin (PI * 0.5))
   \<and> rect_contribution overlap_uniforms centre 1 = (0, sin (PI * 0.5))
   \<and> 0 < sin (PI * 0.5)
   \<and> wind_fragmentSource gradient overlap_uniforms centre
       = (1 / 2, 1 / 2 + 2 * sin (PI * 0.5) * (1 / 100), 0, 1)
   \<and> wind_fragmentSource gradient overlap_uniforms centre \<noteq> gradient centre"
proof -
  note t = wind_offset_is_sum [of overlap_uniforms centre gradient]
  have m: "rectMask overlap_uniforms centre 0 > 0.0001" "rectMask overlap_uniforms centre 1 > 0.0001"
    by (simp_all add: overlap_mask)
  have d: "uDebugRects overlap_uniforms \<le> 0.5" by (simp add: overlap_rects)
  have o: "wind_offset overlap_uniforms centre
       = (fst (rect_contribution overlap_uniforms centre 0)
            + fst (rect_contribution overlap_uniforms centre 1),
          snd (rect_contribution overlap_uniforms centre 0)
            + snd (rect_contribution overlap_uniforms centre 1))"
    using conjunct1 [OF conjunct2 [OF conjunct2 [OF t [of 0]]]]
    by (simp add: overlap_count overlap_mask)
  from t [of 0] have c0: "rect_contribution overlap_uniforms centre 0 = (0, sin (PI * 0.5))"
    by (simp add: overlap_rects overlap_mask)
  from t [of "Suc 0"] have c1: "rect_contribution overlap_uniforms centre (Suc 0) = (0, sin (PI * 0.5))"
    by (simp add: overlap_rects overlap_mask)
  from t [of 0] d m have "wind_fragmentSource gradient overlap_uniforms centre
      = gradient (fst centre + (fst (rect_contribution overlap_uniforms centre 0)
                                 + fst (rect_contribution overlap_uniforms centre 1))
                               * fst (uAmp overlap_uniforms),
                  snd centre + (snd (rect_contribution overlap_uniforms centre 0)
                                 + snd (rect_contribution overlap_uniforms centre 1))
                               * snd (uAmp overlap_uniforms))"
    using overlap_count by blast
  then have g: "wind_fragmentSource gradient overlap_uniforms centre
       = (1 / 2, 1 / 2 + 2 * sin (PI * 0.5) * (1 / 100), 0, 1)"
    using c0 c1 by (simp add: overlap_rects gradient_def centre_def)
  have ne: "wind_fragmentSource gradient overlap_uniforms centre \<noteq> gradient centre"
    unfolding g using sin_half_PI_pos by (simp add: gradient_def centre_def)
  from m d o c0 c1 g ne sin_half_PI_pos overlap_count show ?thesis by simp
qed

subsection \<open>Sprites without rects\<close>

text \<open>
  C9. With a rect count of 0 and debug rendering off, the wind fragment shader returns the
  texture sampled at the interpolated coordinate, unchanged; with a rect count of 0 the
  accumulated offset is zero in any case. A sprite without rects gets the rect count 0
  from \<^verbatim>\<open>buildRectUniforms\<close>, and \<^verbatim>\<open>draw\<close> uploads that count and
  \<^verbatim>\<open>uDebugRects = 0\<close> for it.
\<close>

theorem wind_no_rects_passthrough:
  "(uRectCount u = 0 \<and> uDebugRects u < 0.5 \<longrightarrow> wind_fragmentSource tex u uv = tex uv)
   \<and> (uRectCount u = 0 \<longrightarrow> wind_offset u uv = (0, 0) \<and> wind_sample_uv u uv = uv)
   \<and> (rects l = None \<or> rects l = Some [] \<longrightarrow>
        rectCount (buildRectUniforms l) = Some 0
        \<and> Uniform1i ''uRectCount'' 0 \<in> set (wind_draw_layer rs t (buildRectUniforms l) i)
        \<and> Uniform1f ''uDebugRects'' 0 \<in> set (wind_draw_layer rs t (buildRectUniforms l) i))"
proof -
  have a: "uRectCount u = 0 \<and> uDebugRects u < 0.5 \<longrightarrow> wind_fragmentSource tex u uv = tex uv"
    by (simp add: wind_fragmentSource_def)
  have b: "uRectCount u = 0 \<longrightarrow> wind_offset u uv = (0, 0) \<and> wind_sample_uv u uv = uv"
    by (simp add: wind_sample_uv_def wind_offset_def wind_loop_no_rects vadd_def vmul_def)
  have c: "rects l = None \<or> rects l = Some [] \<longrightarrow> rectCount (buildRectUniforms l) = Some 0"
    by (auto simp: buildRectUniforms_def Let_def)
  have d: "rectCount l' = Some 0 \<Longrightarrow>
      Uniform1i ''uRectCount'' 0 \<in> set (wind_draw_layer rs t l' i)
      \<and> Uniform1f ''uDebugRects'' 0 \<in> set (wind_draw_layer rs t l' i)" for l'
    by (simp add: wind_draw_layer_def DEBUG_RECTS_def Let_def)
  from a b c d show ?thesis by blast
qed

theorem wind_no_rects_passthrough_witness:
  "uRectCount bare_uniforms = 0 \<and> uDebugRects bare_uniforms < 0.5
   \<and> wind_fragmentSource gradient bare_uniforms (0.25, 0.75) = (0.25, 0.75, 0, 1)
   \<and> rects bare_sprite = None
   \<and> rectCount (buildRectUniforms bare_sprite) = Some 0"
  using wind_no_rects_passthrough [of bare_uniforms gradient "(0.25, 0.75)" bare_sprite]
  by (simp add: bare_uniforms_def bare_sprite_def gradient_def)

subsection \<open>Patching the fog parameters\<close>

lemma keys_of_single:
  assumes "keys_of next = [k]"
  shows "(k \<noteq> KStart \<longrightarrow> next_start next = None) \<and> (k \<noteq> KEnd \<longrightarrow> next_end next = None)
       \<and> (k \<noteq> KHeight \<longrightarrow> next_height next = None) \<and> (k \<noteq> KSpeed \<longrightarrow> next_speed next = None)
       \<and> (k \<noteq> KDensity \<longrightarrow> next_density next = None) \<and> (k \<noteq> KFeather \<longrightarrow> next_feather next = None)"
  using assms by (auto simp: keys_of_def split: if_splits)

lemma setFlow_fields:
  assumes "keys_of next = [k]"
  shows "(k \<noteq> KStart \<longrightarrow> flow_start (setFlow fl next) = flow_start fl)
       \<and> (k \<noteq> KEnd \<longrightarrow> flow_end (setFlow fl next) = flow_end fl)
       \<and> (k \<noteq> KHeight \<longrightarrow> flow_height (setFlow fl next) = flow_height fl)
       \<and> (k \<noteq> KSpeed \<longrightarrow> flow_speed (setFlow fl next) = flow_speed fl)
       \<and> (k \<noteq> KDensity \<longrightarrow> flow_density (setFlow fl next) = flow_density fl)
       \<and> (k \<noteq> KFeather \<longrightarrow> flow_feather (setFlow fl next) = flow_feather fl)"
  using keys_of_single [OF assms] by (simp add: setFlow_def spread_def)

lemma fog_uniform_calls:
  "uniform_calls n (fog_draw rs p q fl t) =
     (if n = ''uTime'' then [Uniform1f ''uTime'' t] else []) @
     (if n = ''uResolution'' then [Uniform2f ''uResolution'' (ref_width rs) (ref_height rs)] else []) @
     (if n = ''uStart'' then [Uniform2f ''uStart'' (fst (flow_start fl)) (snd (flow_start fl))] else []) @
     (if n = ''uEnd'' then [Uniform2f ''uEnd'' (fst (flow_end fl)) (snd (flow_end fl))] else []) @
     (if n = ''uHeight'' then [Uniform1f ''uHeight'' (flow_height fl)] else []) @
     (if n = ''uSpeed'' then [Uniform1f ''uSpeed'' (nullish (flow_speed fl) 0.45)] else []) @
     (if n = ''uDensity'' then [Uniform1f ''uDensity'' (nullish (flow_density fl) 0.35)] else []) @
     (if n = ''uFeather'' then [Uniform1f ''uFeather'' (nullish (flow_feather fl) (flow_height fl * 0.5))] else [])"
  by (auto simp: uniform_calls_def fog_draw_def)

text \<open>
  C7 (amended). A partial update that holds exactly one key changes only that field of the
  flow (also when the key is present with the value \<^verbatim>\<open>undefined\<close>), and on the next
  \<^verbatim>\<open>draw\<close> every uniform other than the one of the updated key is uploaded with the
  value it had before, with one exception: after an update of \<^verbatim>\<open>height\<close> alone,
  \<^verbatim>\<open>uFeather\<close> follows the new height when the flow has no \<^verbatim>\<open>feather\<close>, since it
  then defaults to \<^verbatim>\<open>height * 0.5\<close>.
\<close>

theorem setFlow_single_key:
  assumes "keys_of next = [k]"
  shows "(k \<noteq> KStart \<longrightarrow> flow_start (setFlow fl next) = flow_start fl)
       \<and> (k \<noteq> KEnd \<longrightarrow> flow_end (setFlow fl next) = flow_end fl)
       \<and> (k \<noteq> KHeight \<longrightarrow> flow_height (setFlow fl next) = flow_height fl)
       \<and> (k \<noteq> KSpeed \<longrightarrow> flow_speed (setFlow fl next) = flow_speed fl)
       \<and> (k \<noteq> KDensity \<longrightarrow> flow_density (setFlow fl next) = flow_density fl)
       \<and> (k \<noteq> KFeather \<longrightarrow> flow_feather (setFlow fl next) = flow_feather fl)
       \<and> (n \<noteq> key_uniform k \<and> \<not> (k = KHeight \<and> n = ''uFeather'' \<and> flow_feather fl = None) \<longrightarrow>
            uniform_calls n (fog_draw rs p q (setFlow fl next) t)
              = uniform_calls n (fog_draw rs p q fl t))"
proof -
  note f = setFlow_fields [OF assms, of fl]
  have u: "uniform_calls n (fog_draw rs p q (setFlow fl next) t)
              = uniform_calls n (fog_draw rs p q fl t)"
    if "n \<noteq> key_uniform k" "\<not> (k = KHeight \<and> n = ''uFeather'' \<and> flow_feather fl = None)"
  proof (cases k)
    case KHeight
    with f that show ?thesis
      by (cases "flow_feather fl") (auto simp: fog_uniform_calls nullish_def)
  qed (use f that in \<open>auto simp: fog_uniform_calls\<close>)
  from f u show ?thesis by blast
qed

theorem setFlow_single_key_witness:
  "keys_of (only_density (1 / 2)) = [KDensity]
   \<and> setFlow default_flow (only_density (1 / 2)) = default_flow\<lparr>flow_density := Some (1 / 2)\<rparr>
   \<and> uniform_calls ''uFeather'' (fog_draw referenceSize 1 2 (setFlow default_flow (only_density (1 / 2))) 3)
       = uniform_calls ''uFeather'' (fog_draw referenceSize 1 2 default_flow 3)
   \<and> uniform_calls ''uDensity'' (fog_draw referenceSize 1 2 (setFlow default_flow (only_density (1 / 2))) 3)
       = [Uniform1f ''uDensity'' (1 / 2)]"
proof -
  have k: "keys_of (only_density (1 / 2)) = [KDensity]"
    by (simp add: keys_of_def only_density_def no_keys_def)
  have s: "setFlow default_flow (only_density (1 / 2)) = default_flow\<lparr>flow_density := Some (1 / 2)\<rparr>"
    by (simp add: setFlow_def spread_def only_density_def no_keys_def default_flow_def)
  have d: "uniform_calls ''uDensity'' (fog_draw referenceSize 1 2 (setFlow default_flow (only_density (1 / 2))) 3)
       = [Uniform1f ''uDensity'' (1 / 2)]"
    by (simp add: s uniform_calls_def fog_draw_def nullish_def)
  from setFlow_single_key [OF k, where n = "''uFeather''" and fl = default_flow
      and rs = referenceSize and p = 1 and q = 2 and t = 3]
  have "uniform_calls ''uFeather'' (fog_draw referenceSize 1 2 (setFlow default_flow (only_density (1 / 2))) 3)
       = uniform_calls ''uFeather'' (fog_draw referenceSize 1 2 default_flow 3)"
    by simp
  with k s d show ?thesis by blast
qed

text \<open>
  C7 as stated fails for an update of \<^verbatim>\<open>height\<close> alone on a flow without
  \<^verbatim>\<open>feather\<close>: \<^verbatim>\<open>uFeather\<close> goes from 130 to 50.
\<close>

theorem setFlow_height_counterexample:
  "\<not> (\<forall>fl next k n. keys_of next = [k] \<and> n \<noteq> key_uniform k \<longrightarrow>
        uniform_calls n (fog_draw referenceSize 1 2 (setFlow fl next) 3)
          = uniform_calls n (fog_draw referenceSize 1 2 fl 3))"
proof
  assume a: "\<forall>fl next k n. keys_of next = [k] \<and> n \<noteq> key_uniform k \<longrightarrow>
        uniform_calls n (fog_draw referenceSize 1 2 (setFlow fl next) 3)
          = uniform_calls n (fog_draw referenceSize 1 2 fl 3)"
  have k: "keys_of (only_height 100) = [KHeight]"
    by (simp add: keys_of_def only_height_def no_keys_def)
  have "''uFeather'' \<noteq> key_uniform KHeight" by simp
  with a k have "uniform_calls ''uFeather'' (fog_draw referenceSize 1 2 (setFlow bare_flow (only_height 100)) 3)
          = uniform_calls ''uFeather'' (fog_draw referenceSize 1 2 bare_flow 3)"
    by blast
  then show False
    by (simp add: fog_uniform_calls setFlow_def spread_def only_height_def no_keys_def bare_flow_def
        nullish_def)
qed

subsection \<open>Readiness of the layers\<close>

lemma all_fulfilled_members:
  "all_fulfilled ps = Some vs \<Longrightarrow> p \<in> set ps \<Longrightarrow> \<exists>v. p = Fulfilled v"
proof (induction ps arbitrary: vs)
  case Nil
  then show ?case by simp
next
  case (Cons q ps)
  then show ?case by (cases q) auto
qed

lemma all_fulfilled_no_pending:
  assumes "all_fulfilled ps \<noteq> None" "i < length ps"
  shows "ps ! i \<noteq> Pending"
proof -
  from assms(1) obtain vs where "all_fulfilled ps = Some vs" by blast
  moreover from assms(2) have "ps ! i \<in> set ps" by simp
  ultimately obtain v where "ps ! i = Fulfilled v"
    using all_fulfilled_members by blast
  then show ?thesis by simp
qed

lemma all_fulfilled_no_rejected:
  assumes "all_fulfilled ps \<noteq> None"
  shows "\<not> list_ex is_rejected ps"
proof
  assume "list_ex is_rejected ps"
  then obtain p where p: "p \<in> set ps" "is_rejected p" by (auto simp: list_ex_iff)
  from assms obtain vs where "all_fulfilled ps = Some vs" by blast
  with p(1) obtain v where "p = Fulfilled v" using all_fulfilled_members by blast
  with p(2) show False by simp
qed

lemma update_keeps_unrejected:
  assumes "\<not> list_ex is_rejected ps" "\<not> is_rejected v"
  shows "\<not> list_ex is_rejected (ps[i := v])"
proof
  assume "list_ex is_rejected (ps[i := v])"
  then obtain p where p: "p \<in> set (ps[i := v])" "is_rejected p" by (auto simp: list_ex_iff)
  from p(1) have "p \<in> insert v (set ps)"
    by (rule set_update_subset_insert [THEN subsetD])
  then have "p = v \<or> p \<in> set ps" by simp
  with p(2) assms show False unfolding list_ex_iff by blast
qed

lemma update_keeps_rejected:
  assumes "list_ex is_rejected ps" "ps ! i = Pending"
  shows "list_ex is_rejected (ps[i := v])"
proof -
  from assms(1) obtain j where j: "j < length ps" "is_rejected (ps ! j)"
    by (auto simp: list_ex_iff in_set_conv_nth)
  with assms(2) have "j \<noteq> i" by auto
  with j have "j < length (ps[i := v])" "is_rejected (ps[i := v] ! j)" by simp_all
  then show ?thesis unfolding list_ex_iff by (metis nth_mem)
qed

lemma settle_Inr [simp]: "settle (Inr t) = Fulfilled t" "\<not> is_rejected (settle (Inr t))"
  by (simp_all add: settle_def)

lemma settle_Inl [simp]: "settle (Inl e) = Rejected e"
  by (simp add: settle_def)

lemma wind_settled_cases:
  "wind_settled i r st = st
   \<or> (i < length (wind_loads st) \<and> wind_loads st ! i = Pending \<and> wind_ready st \<noteq> Pending
      \<and> wind_settled i r st = st\<lparr>wind_loads := (wind_loads st)[i := settle r]\<rparr>)
   \<or> (i < length (wind_loads st) \<and> wind_loads st ! i = Pending \<and> wind_ready st = Pending
      \<and> (\<exists>e. r = Inl e \<and> wind_settled i r st
              = st\<lparr>wind_loads := (wind_loads st)[i := Rejected e], wind_ready := Rejected e\<rparr>))
   \<or> (i < length (wind_loads st) \<and> wind_loads st ! i = Pending \<and> wind_ready st = Pending
      \<and> (\<exists>t. r = Inr t \<and> all_fulfilled ((wind_loads st)[i := Fulfilled t]) = None
              \<and> wind_settled i r st = st\<lparr>wind_loads := (wind_loads st)[i := Fulfilled t]\<rparr>))
   \<or> (i < length (wind_loads st) \<and> wind_loads st ! i = Pending \<and> wind_ready st = Pending
      \<and> (\<exists>t ts. r = Inr t \<and> all_fulfilled ((wind_loads st)[i := Fulfilled t]) = Some ts
              \<and> wind_settled i r st
                = st\<lparr>wind_loads := (wind_loads st)[i := Fulfilled t], layers := wind_layers ts,
                      wind_ready := Fulfilled ()\<rparr>))"
proof (cases "i < length (wind_loads st) \<and> wind_loads st ! i = Pending")
  case False
  then have "wind_settled i r st = st"
    unfolding wind_settled_def by (rule if_not_P)
  then show ?thesis by simp
next
  case c: True
  show ?thesis
  proof (cases "wind_ready st = Pending")
    case False
    with c show ?thesis by (simp add: wind_settled_def Let_def)
  next
    case p: True
    show ?thesis
    proof (cases r)
      case (Inl e)
      with c p show ?thesis by (simp add: wind_settled_def Let_def)
    next
      case (Inr t)
      with c p show ?thesis
        by (cases "all_fulfilled ((wind_loads st)[i := Fulfilled t])")
           (simp_all add: wind_settled_def Let_def)
    qed
  qed
qed

lemma all_fulfilled_pending:
  "all_fulfilled ps = Some vs \<Longrightarrow> i < length ps \<Longrightarrow> ps ! i = Pending \<Longrightarrow> False"
  using all_fulfilled_no_pending [of ps i] by simp

lemma wind_settled_inv: "wind_inv st \<Longrightarrow> wind_inv (wind_settled i r st)"
  using wind_settled_cases [of i r st]
  by (elim disjE conjE exE)
     (auto simp: wind_inv_def update_keeps_unrejected dest: all_fulfilled_pending)

lemma wind_settled_fulfilled:
  "wind_ready st = Fulfilled () \<Longrightarrow> wind_ready (wind_settled i r st) = Fulfilled ()"
  by (simp add: wind_settled_def Let_def)

lemma wind_settled_rejected:
  "list_ex is_rejected (wind_loads st) \<Longrightarrow> list_ex is_rejected (wind_loads (wind_settled i r st))"
  using wind_settled_cases [of i r st]
  by (elim disjE conjE exE) (auto simp: update_keeps_rejected)

lemma sakura_settled_cases:
  "sakura_settled al i r st = st
   \<or> (i < length (sakura_loads st) \<and> sakura_loads st ! i = Pending \<and> sakura_ready st \<noteq> Pending
      \<and> sakura_settled al i r st = st\<lparr>sakura_loads := (sakura_loads st)[i := settle r]\<rparr>)
   \<or> (i < length (sakura_loads st) \<and> sakura_loads st ! i = Pending \<and> sakura_ready st = Pending
      \<and> (\<exists>e. r = Inl e \<and> sakura_settled al i r st
              = st\<lparr>sakura_loads := (sakura_loads st)[i := Rejected e], sakura_ready := Rejected e\<rparr>))
   \<or> (i < length (sakura_loads st) \<and> sakura_loads st ! i = Pending \<and> sakura_ready st = Pending
      \<and> (\<exists>t. r = Inr t \<and> all_fulfilled ((sakura_loads st)[i := Fulfilled t]) = None
              \<and> sakura_settled al i r st = st\<lparr>sakura_loads := (sakura_loads st)[i := Fulfilled t]\<rparr>))
   \<or> (i < length (sakura_loads st) \<and> sakura_loads st ! i = Pending \<and> sakura_ready st = Pending
      \<and> (\<exists>t ts e. r = Inr t \<and> all_fulfilled ((sakura_loads st)[i := Fulfilled t]) = Some ts
              \<and> sakura_settled al i r st
                = st\<lparr>sakura_loads := (sakura_loads st)[i := Fulfilled t], sakura_ready := Rejected e\<rparr>))
   \<or> (i < length (sakura_loads st) \<and> sakura_loads st ! i = Pending \<and> sakura_ready st = Pending
      \<and> (\<exists>t ts gs. r = Inr t \<and> all_fulfilled ((sakura_loads st)[i := Fulfilled t]) = Some ts
              \<and> sakura_settled al i r st
                = st\<lparr>sakura_loads := (sakura_loads st)[i := Fulfilled t], particleGroups := gs,
                      sakura_ready := Fulfilled ()\<rparr>))"
proof (cases "i < length (sakura_loads st) \<and> sakura_loads st ! i = Pending")
  case False
  then have "sakura_settled al i r st = st"
    unfolding sakura_settled_def by (rule if_not_P)
  then show ?thesis by simp
next
  case c: True
  show ?thesis
  proof (cases "sakura_ready st = Pending")
    case False
    with c show ?thesis by (simp add: sakura_settled_def Let_def)
  next
    case p: True
    show ?thesis
    proof (cases r)
      case (Inl e)
      with c p show ?thesis by (simp add: sakura_settled_def Let_def)
    next
      case (Inr t)
      show ?thesis
      proof (cases "all_fulfilled ((sakura_loads st)[i := Fulfilled t])")
        case None
        with c p Inr show ?thesis by (simp add: sakura_settled_def Let_def)
      next
        case (Some ts)
        show ?thesis
        proof (cases "particle_groups al ts")
          case (Inl e)
          with c p Inr Some have "sakura_settled al i r st
              = st\<lparr>sakura_loads := (sakura_loads st)[i := Fulfilled t], sakura_ready := Rejected e\<rparr>"
            by (simp add: sakura_settled_def Let_def)
          with c p Inr Some show ?thesis by blast
        next
          case (Inr gs)
          with c p \<open>r = Inr t\<close> Some have "sakura_settled al i r st
              = st\<lparr>sakura_loads := (sakura_loads st)[i := Fulfilled t], particleGroups := gs,
                    sakura_ready := Fulfilled ()\<rparr>"
            by (simp add: sakura_settled_def Let_def)
          with c p \<open>r = Inr t\<close> Some show ?thesis by blast
        qed
      qed
    qed
  qed
qed

lemma sakura_settled_inv: "sakura_inv st \<Longrightarrow> sakura_inv (sakura_settled al i r st)"
  using sakura_settled_cases [of al i r st]
  by (elim disjE conjE exE)
     (auto simp: sakura_inv_def update_keeps_unrejected dest: all_fulfilled_pending)

lemma sakura_settled_fulfilled:
  "sakura_ready st = Fulfilled () \<Longrightarrow> sakura_ready (sakura_settled al i r st) = Fulfilled ()"
  by (simp add: sakura_settled_def Let_def)

lemma sakura_settled_rejected:
  "list_ex is_rejected (sakura_loads st) \<Longrightarrow>
   list_ex is_rejected (sakura_loads (sakura_settled al i r st))"
  using sakura_settled_cases [of al i r st]
  by (elim disjE conjE exE) (auto simp: update_keeps_rejected)

lemma pulse_settled_inv: "pulse_inv st \<Longrightarrow> pulse_inv (pulse_settled r st)"
  by (cases r) (auto simp: pulse_inv_def pulse_settled_def)

lemma pulse_settled_fulfilled:
  "pulse_inv st \<Longrightarrow> pulse_ready st = Fulfilled () \<Longrightarrow> pulse_ready (pulse_settled r st) = Fulfilled ()"
  by (cases r) (auto simp: pulse_inv_def pulse_settled_def)

lemma pulse_settled_rejected:
  "is_rejected (pulse_load st) \<Longrightarrow> is_rejected (pulse_load (pulse_settled r st))"
  by (cases r; cases "pulse_load st") (simp_all add: pulse_settled_def)

subsection \<open>Gating of the render loop\<close>

lemma call_draw_fields:
  "env (call_draw l t s) = env s" "objects (call_draw l t s) = objects s"
  "flow (call_draw l t s) = flow s"
  "wind (call_draw l t s) = wind s" "pulse (call_draw l t s) = pulse s"
  "sakura (call_draw l t s) = sakura s" "loop (call_draw l t s) = loop s"
  "raf_pending (call_draw l t s) = raf_pending s" "the_canvas (call_draw l t s) = the_canvas s"
  "accepted (call_draw l t s) = accepted s"
  "drawn (call_draw l t s) = drawn s @ [(l, t)]"
  "gl (call_draw l t s) = gl s @ layer_draw l s t"
  by (simp_all add: call_draw_def)

lemma draw_sequence_fields:
  "wind (draw_sequence now l s) = wind s" "pulse (draw_sequence now l s) = pulse s"
  "sakura (draw_sequence now l s) = sakura s" "loop (draw_sequence now l s) = loop s"
  "raf_pending (draw_sequence now l s) = raf_pending s"
  "accepted (draw_sequence now l s) = accepted s"
  "env (draw_sequence now l s) = env s"
  "the_canvas (draw_sequence now l s) = resizeCanvas (env s) (the_canvas s)"
  "drawn (draw_sequence now l s) =
     drawn s @ [(PulseMask, (now - start l) * 0.001), (Fog, (now - start l) * 0.001),
                (Wind, (now - start l) * 0.001), (Sakura, (now - start l) * 0.001)]"
  by (simp_all add: draw_sequence_def Let_def call_draw_fields)

lemma render_fields:
  "wind (render fps now s) = wind s" "pulse (render fps now s) = pulse s"
  "sakura (render fps now s) = sakura s" "env (render fps now s) = env s"
  by (simp_all add: render_def requestAnimationFrame_def draw_sequence_fields split: option.splits)

lemma render_loop_None: "(loop (render fps now s) = None) = (loop s = None)"
  by (simp add: render_def requestAnimationFrame_def draw_sequence_fields split: option.splits)

lemma render_not_started: "loop s = None \<Longrightarrow> render fps now s = s"
  by (simp add: render_def)

lemma layers_ready_cong:
  "wind_ready (wind s') = wind_ready (wind s) \<Longrightarrow> pulse_ready (pulse s') = pulse_ready (pulse s)
   \<Longrightarrow> sakura_ready (sakura s') = sakura_ready (sakura s) \<Longrightarrow> layers_ready s' = layers_ready s"
  by (simp add: layers_ready_def)

lemma start_loop_fields:
  "wind (start_loop s) = wind s" "pulse (start_loop s) = pulse s" "sakura (start_loop s) = sakura s"
  "gl (start_loop s) = gl s" "drawn (start_loop s) = drawn s" "accepted (start_loop s) = accepted s"
  "env (start_loop s) = env s" "the_canvas (start_loop s) = the_canvas s"
  by (simp_all add: start_loop_def requestAnimationFrame_def)

lemma start_loop_inv: "scene_inv s \<Longrightarrow> scene_inv (start_loop s)"
  by (cases "loop s")
     (simp_all add: scene_inv_def start_loop_def requestAnimationFrame_def layers_ready_def)

lemma settled_wind_inv:
  "scene_inv s \<Longrightarrow> scene_inv (s\<lparr>wind := wind_settled i r (wind s)\<rparr>)"
  by (cases "loop s")
     (simp_all add: scene_inv_def layers_ready_def wind_settled_inv wind_settled_fulfilled)

lemma settled_pulse_inv:
  "scene_inv s \<Longrightarrow> scene_inv (s\<lparr>pulse := pulse_settled r (pulse s)\<rparr>)"
  by (cases "loop s")
     (simp_all add: scene_inv_def layers_ready_def pulse_settled_inv pulse_settled_fulfilled)

lemma settled_sakura_inv:
  "scene_inv s \<Longrightarrow> scene_inv (s\<lparr>sakura := sakura_settled al i r (sakura s)\<rparr>)"
  by (cases "loop s")
     (simp_all add: scene_inv_def layers_ready_def sakura_settled_inv sakura_settled_fulfilled)

lemma render_inv: "scene_inv s \<Longrightarrow> scene_inv (render fps now s)"
proof (cases "loop s")
  case None
  then show "scene_inv s \<Longrightarrow> scene_inv (render fps now s)" by (simp add: render_not_started)
next
  case (Some l)
  then have "loop (render fps now s) \<noteq> None" by (simp add: render_loop_None)
  then obtain l' where l': "loop (render fps now s) = Some l'" by blast
  assume "scene_inv s"
  with Some l' show "scene_inv (render fps now s)"
    by (simp add: scene_inv_def render_fields layers_ready_def)
qed

lemma frame_inv:
  "scene_inv s \<Longrightarrow> scene_inv (render fps now (s\<lparr>raf_pending := raf_pending s - 1\<rparr>))"
proof (rule render_inv)
  assume "scene_inv s"
  then show "scene_inv (s\<lparr>raf_pending := raf_pending s - 1\<rparr>)"
    by (cases "loop s") (simp_all add: scene_inv_def layers_ready_def)
qed

lemma dispatch_inv: "scene_inv s \<Longrightarrow> scene_inv (dispatch fps ev s)"
proof (cases ev)
  case (TextureSettled l i r)
  assume inv: "scene_inv s"
  show ?thesis
  proof (cases l)
    case PulseMask
    with TextureSettled inv show ?thesis
      by (simp add: dispatch_def start_loop_inv settled_pulse_inv)
  next
    case Fog
    with TextureSettled inv show ?thesis by (simp add: dispatch_def)
  next
    case Wind
    with TextureSettled inv show ?thesis
      by (simp add: dispatch_def start_loop_inv settled_wind_inv)
  next
    case Sakura
    with TextureSettled inv show ?thesis
      by (simp add: dispatch_def start_loop_inv settled_sakura_inv)
  qed
next
  case (AnimationFrame now)
  assume "scene_inv s"
  with AnimationFrame show ?thesis using frame_inv [of s fps now] by (simp add: dispatch_def)
next
  case WindowResize
  assume "scene_inv s"
  with WindowResize show ?thesis
    by (cases "loop s") (simp_all add: dispatch_def scene_inv_def layers_ready_def)
next
  case (Environment e)
  assume "scene_inv s"
  with Environment show ?thesis
    by (cases "loop s") (simp_all add: dispatch_def scene_inv_def layers_ready_def)
qed

lemma run_inv: "scene_inv s \<Longrightarrow> scene_inv (run fps evs s)"
  by (induction evs arbitrary: s) (simp_all add: dispatch_inv)

lemma init_inv: "scene_inv (init_scene e objs)"
  by (simp add: scene_inv_def init_scene_def wind_inv_def pulse_inv_def sakura_inv_def
      list_ex_iff)

lemma run_append: "run fps (evs @ rest) s = run fps rest (run fps evs s)"
  by (induction evs arbitrary: s) simp_all

lemma any_load_rejected_iff:
  "any_load_rejected s =
    (list_ex is_rejected (wind_loads (wind s)) \<or> is_rejected (pulse_load (pulse s))
     \<or> list_ex is_rejected (sakura_loads (sakura s)))"
  by (simp add: any_load_rejected_def)

lemma dispatch_rejected: "any_load_rejected s \<Longrightarrow> any_load_rejected (dispatch fps ev s)"
proof (cases ev)
  case (TextureSettled l i r)
  assume a: "any_load_rejected s"
  show ?thesis
  proof (cases l)
    case PulseMask
    with TextureSettled a show ?thesis
      by (auto simp: any_load_rejected_iff dispatch_def start_loop_fields pulse_settled_rejected)
  next
    case Fog
    with TextureSettled a show ?thesis by (simp add: dispatch_def)
  next
    case Wind
    with TextureSettled a show ?thesis
      by (auto simp: any_load_rejected_iff dispatch_def start_loop_fields wind_settled_rejected)
  next
    case Sakura
    with TextureSettled a show ?thesis
      by (auto simp: any_load_rejected_iff dispatch_def start_loop_fields sakura_settled_rejected)
  qed
next
  case (AnimationFrame now)
  assume "any_load_rejected s"
  with AnimationFrame show ?thesis
    by (simp add: any_load_rejected_iff dispatch_def render_fields)
next
  case WindowResize
  assume "any_load_rejected s"
  with WindowResize show ?thesis by (simp add: any_load_rejected_iff dispatch_def)
next
  case (Environment e)
  assume "any_load_rejected s"
  with Environment show ?thesis by (simp add: any_load_rejected_iff dispatch_def)
qed

lemma run_rejected: "any_load_rejected s \<Longrightarrow> any_load_rejected (run fps evs s)"
  by (induction evs arbitrary: s) (simp_all add: dispatch_rejected)

lemma rejected_not_ready:
  assumes "scene_inv s" "any_load_rejected s"
  shows "\<not> layers_ready s"
proof
  assume r: "layers_ready s"
  with assms(1) have "all_fulfilled (wind_loads (wind s)) \<noteq> None"
    "\<not> is_rejected (pulse_load (pulse s))" "all_fulfilled (sakura_loads (sakura s)) \<noteq> None"
    by (simp_all add: scene_inv_def layers_ready_def wind_inv_def pulse_inv_def sakura_inv_def)
  then have "\<not> list_ex is_rejected (wind_loads (wind s))"
    "\<not> is_rejected (pulse_load (pulse s))" "\<not> list_ex is_rejected (sakura_loads (sakura s))"
    by (simp_all add: all_fulfilled_no_rejected)
  with assms(2) show False
    by (simp add: any_load_rejected_iff)
qed

lemma not_started_quiet:
  assumes "scene_inv s" "\<not> layers_ready s"
  shows "loop s = None \<and> raf_pending s = 0 \<and> drawn s = [] \<and> gl s = [] \<and> accepted s = []"
  using assms by (cases "loop s") (simp_all add: scene_inv_def)

text \<open>
  C1. In every run of the page from its initial state: if the continuation has run, an
  animation callback is requested, a layer's \<^verbatim>\<open>draw\<close> has been invoked or a WebGL call
  has been issued by the loop, then all three readiness promises are fulfilled; and once
  any image load has been rejected, then whatever happens afterwards the continuation
  never runs, no callback is ever requested, no \<^verbatim>\<open>draw\<close> is ever invoked and no WebGL
  call is ever issued by the loop.
\<close>

theorem render_loop_gated:
  "(loop (run fps evs (init_scene e objs)) \<noteq> None
      \<or> 0 < raf_pending (run fps evs (init_scene e objs))
      \<or> drawn (run fps evs (init_scene e objs)) \<noteq> []
      \<or> gl (run fps evs (init_scene e objs)) \<noteq> []
     \<longrightarrow> layers_ready (run fps evs (init_scene e objs)))
   \<and> (any_load_rejected (run fps evs (init_scene e objs))
     \<longrightarrow> loop (run fps (evs @ rest) (init_scene e objs)) = None
         \<and> raf_pending (run fps (evs @ rest) (init_scene e objs)) = 0
         \<and> drawn (run fps (evs @ rest) (init_scene e objs)) = []
         \<and> gl (run fps (evs @ rest) (init_scene e objs)) = [])"
proof (intro conjI impI)
  assume a: "loop (run fps evs (init_scene e objs)) \<noteq> None
      \<or> 0 < raf_pending (run fps evs (init_scene e objs))
      \<or> drawn (run fps evs (init_scene e objs)) \<noteq> []
      \<or> gl (run fps evs (init_scene e objs)) \<noteq> []"
  have "scene_inv (run fps evs (init_scene e objs))" by (rule run_inv [OF init_inv])
  with a show "layers_ready (run fps evs (init_scene e objs))"
    using not_started_quiet by fastforce
next
  assume "any_load_rejected (run fps evs (init_scene e objs))"
  then have r: "any_load_rejected (run fps (evs @ rest) (init_scene e objs))"
    by (simp add: run_append run_rejected)
  have i: "scene_inv (run fps (evs @ rest) (init_scene e objs))" by (rule run_inv [OF init_inv])
  from not_started_quiet [OF i rejected_not_ready [OF i r]]
  show "loop (run fps (evs @ rest) (init_scene e objs)) = None"
    "raf_pending (run fps (evs @ rest) (init_scene e objs)) = 0"
    "drawn (run fps (evs @ rest) (init_scene e objs)) = []"
    "gl (run fps (evs @ rest) (init_scene e objs)) = []"
    by simp_all
qed

text \<open>
  C10. In every run of the page, for each texture-backed layer (wind, pulse mask, petal
  particles) and every time \<open>t\<close>: while the layer's readiness promise is not fulfilled,
  its \<^verbatim>\<open>draw(t)\<close> issues no WebGL call. The guard is on the state the callback assigns:
  with no sprites, no mask layer or no batches, \<^verbatim>\<open>draw\<close> returns at once.
\<close>

theorem draw_before_ready_is_noop:
  "(wind_ready (wind (run fps evs (init_scene e objs))) \<noteq> Fulfilled ()
      \<longrightarrow> layer_draw Wind (run fps evs (init_scene e objs)) t = [])
   \<and> (pulse_ready (pulse (run fps evs (init_scene e objs))) \<noteq> Fulfilled ()
      \<longrightarrow> layer_draw PulseMask (run fps evs (init_scene e objs)) t = [])
   \<and> (sakura_ready (sakura (run fps evs (init_scene e objs))) \<noteq> Fulfilled ()
      \<longrightarrow> layer_draw Sakura (run fps evs (init_scene e objs)) t = [])
   \<and> wind_draw rs p q [] t = [] \<and> pulse_draw rs p q None t = [] \<and> sakura_draw rs p [] t = []"
proof -
  have "scene_inv (run fps evs (init_scene e objs))" by (rule run_inv [OF init_inv])
  then show ?thesis
    by (simp add: scene_inv_def wind_inv_def pulse_inv_def sakura_inv_def layer_draw_def
        wind_draw_def pulse_draw_def sakura_draw_def)
qed

subsection \<open>Frame pacing\<close>

lemma minFrameTime_pos: "0 < F \<Longrightarrow> minFrameTime (Some F) = 1000 / real F \<and> 0 < minFrameTime (Some F)"
  by (simp add: minFrameTime_def)

lemma render_skip:
  assumes "loop s = Some l" "0 < minFrameTime fps" "now - lastFrameTime l < minFrameTime fps"
  shows "render fps now s = requestAnimationFrame s"
  using assms by (simp add: render_def)

lemma render_accept:
  assumes "loop s = Some l" "\<not> now - lastFrameTime l < minFrameTime fps"
  shows "loop (render fps now s) = Some (l\<lparr>lastFrameTime := now\<rparr>)"
    "accepted (render fps now s) = now # accepted s"
    "drawn (render fps now s) =
       drawn s @ [(PulseMask, (now - start l) * 0.001), (Fog, (now - start l) * 0.001),
                  (Wind, (now - start l) * 0.001), (Sakura, (now - start l) * 0.001)]"
    "raf_pending (render fps now s) = raf_pending s + 1"
  using assms by (simp_all add: render_def requestAnimationFrame_def draw_sequence_fields)

lemma render_pacing:
  assumes "0 < minFrameTime fps" "pacing_inv (minFrameTime fps) s"
  shows "pacing_inv (minFrameTime fps) (render fps now s)"
proof (cases "loop s")
  case None
  with assms(2) show ?thesis by (simp add: render_not_started)
next
  case (Some l)
  show ?thesis
  proof (cases "now - lastFrameTime l < minFrameTime fps")
    case True
    with Some assms show ?thesis
      by (simp add: render_skip pacing_inv_def requestAnimationFrame_def)
  next
    case False
    note r = render_accept [OF Some False]
    from assms(2) Some False show ?thesis
      by (cases "accepted s") (simp_all add: pacing_inv_def r)
  qed
qed

lemma pacing_raf: "pacing_inv m (s\<lparr>raf_pending := n\<rparr>) = pacing_inv m s"
  by (simp add: pacing_inv_def cong: option.case_cong list.case_cong)

lemma start_loop_pacing: "pacing_inv m s \<Longrightarrow> pacing_inv m (start_loop s)"
  by (cases "loop s") (simp_all add: pacing_inv_def start_loop_def requestAnimationFrame_def)

lemma dispatch_pacing:
  assumes "0 < minFrameTime fps" "pacing_inv (minFrameTime fps) s"
  shows "pacing_inv (minFrameTime fps) (dispatch fps ev s)"
proof (cases ev)
  case (TextureSettled l i r)
  have "pacing_inv (minFrameTime fps) (s\<lparr>wind := w\<rparr>)"
    "pacing_inv (minFrameTime fps) (s\<lparr>pulse := p\<rparr>)"
    "pacing_inv (minFrameTime fps) (s\<lparr>sakura := k\<rparr>)" for w p k
    using assms(2) by (simp_all add: pacing_inv_def cong: option.case_cong list.case_cong)
  with TextureSettled assms(2) show ?thesis
    by (cases l) (simp_all add: dispatch_def start_loop_pacing)
next
  case (AnimationFrame now)
  with assms show ?thesis by (simp add: dispatch_def render_pacing pacing_raf)
next
  case WindowResize
  with assms(2) show ?thesis
    by (simp add: dispatch_def pacing_inv_def cong: option.case_cong list.case_cong)
next
  case (Environment e)
  with assms(2) show ?thesis
    by (simp add: dispatch_def pacing_inv_def cong: option.case_cong list.case_cong)
qed

lemma run_pacing:
  "0 < minFrameTime fps \<Longrightarrow> pacing_inv (minFrameTime fps) s \<Longrightarrow>
   pacing_inv (minFrameTime fps) (run fps evs s)"
  by (induction evs arbitrary: s) (simp_all add: dispatch_pacing)

lemma init_pacing: "pacing_inv m (init_scene e objs)"
  by (simp add: pacing_inv_def init_scene_def)

text \<open>
  C2. For every target frame rate \<open>F > 0\<close> the minimum interval is \<open>1000 / F\<close> ms. A
  callback arriving less than that after \<^verbatim>\<open>lastFrameTime\<close> changes nothing but to request
  a new callback; one arriving at or after it sets \<^verbatim>\<open>lastFrameTime\<close> to its timestamp,
  draws the four layers in order and requests a new callback. In every run of the page the
  accepted timestamps are at least \<open>1000 / F\<close> apart, and the layers are drawn exactly
  once per accepted frame.
\<close>

theorem frame_pacing:
  assumes "0 < F"
  shows "minFrameTime (Some F) = 1000 / real F
    \<and> (loop s = Some l \<and> now - lastFrameTime l < 1000 / real F
        \<longrightarrow> render (Some F) now s = s\<lparr>raf_pending := raf_pending s + 1\<rparr>)
    \<and> (loop s = Some l \<and> now - lastFrameTime l \<ge> 1000 / real F
        \<longrightarrow> loop (render (Some F) now s) = Some (l\<lparr>lastFrameTime := now\<rparr>)
            \<and> accepted (render (Some F) now s) = now # accepted s
            \<and> drawn (render (Some F) now s) =
                drawn s @ [(PulseMask, (now - start l) * 0.001), (Fog, (now - start l) * 0.001),
                           (Wind, (now - start l) * 0.001), (Sakura, (now - start l) * 0.001)]
            \<and> raf_pending (render (Some F) now s) = raf_pending s + 1)
    \<and> spaced (1000 / real F) (accepted (run (Some F) evs (init_scene e objs)))
    \<and> length (drawn (run (Some F) evs (init_scene e objs)))
        = 4 * length (accepted (run (Some F) evs (init_scene e objs)))"
proof -
  note m = minFrameTime_pos [OF assms]
  have skip: "render (Some F) now s = s\<lparr>raf_pending := raf_pending s + 1\<rparr>"
    if "loop s = Some l" "now - lastFrameTime l < 1000 / real F"
    using render_skip [of s l "Some F" now] that m assms by (simp add: requestAnimationFrame_def)
  have acc: "loop (render (Some F) now s) = Some (l\<lparr>lastFrameTime := now\<rparr>)
            \<and> accepted (render (Some F) now s) = now # accepted s
            \<and> drawn (render (Some F) now s) =
                drawn s @ [(PulseMask, (now - start l) * 0.001), (Fog, (now - start l) * 0.001),
                           (Wind, (now - start l) * 0.001), (Sakura, (now - start l) * 0.001)]
            \<and> raf_pending (render (Some F) now s) = raf_pending s + 1"
    if "loop s = Some l" "now - lastFrameTime l \<ge> 1000 / real F"
    using render_accept [of s l now "Some F"] that m assms by simp
  have "pacing_inv (minFrameTime (Some F)) (run (Some F) evs (init_scene e objs))"
    by (rule run_pacing [OF conjunct2 [OF m] init_pacing])
  then have tr: "spaced (1000 / real F) (accepted (run (Some F) evs (init_scene e objs)))
    \<and> length (drawn (run (Some F) evs (init_scene e objs)))
        = 4 * length (accepted (run (Some F) evs (init_scene e objs)))"
    using m
    by (cases "loop (run (Some F) evs (init_scene e objs))") (simp_all add: pacing_inv_def)
  from m skip acc tr show ?thesis by blast
qed

subsection \<open>Two runs of the page\<close>

theorem render_loop_gated_witness:
  "loop started \<noteq> None \<and> layers_ready started
   \<and> any_load_rejected failed
   \<and> loop (run targetFps (one_failed @ all_loaded @ frames)
              (init_scene example_environment example_objects)) = None
   \<and> drawn (run targetFps (one_failed @ all_loaded @ frames)
               (init_scene example_environment example_objects)) = []"
proof -
  have a: "loop started \<noteq> None" by code_simp
  have b: "any_load_rejected failed" by code_simp
  from a render_loop_gated [of targetFps all_loaded example_environment example_objects]
  have c: "layers_ready started" by (simp add: started_def)
  from b render_loop_gated [of targetFps one_failed example_environment example_objects
      "all_loaded @ frames"]
  have "loop (run targetFps (one_failed @ all_loaded @ frames)
              (init_scene example_environment example_objects)) = None"
    "drawn (run targetFps (one_failed @ all_loaded @ frames)
               (init_scene example_environment example_objects)) = []"
    by (simp_all add: failed_def)
  with a b c show ?thesis by blast
qed

theorem draw_before_ready_is_noop_witness:
  "wind_ready (wind failed) = Pending \<and> layer_draw Wind failed 1 = []
   \<and> sakura_ready (sakura failed) = Rejected (Error ''Failed to load petal-3.png'')
   \<and> layer_draw Sakura failed 1 = []
   \<and> pulse_ready (pulse failed) = Pending \<and> layer_draw PulseMask failed 1 = []"
proof -
  have a: "wind_ready (wind failed) = Pending"
    "sakura_ready (sakura failed) = Rejected (Error ''Failed to load petal-3.png'')"
    "pulse_ready (pulse failed) = Pending"
    by code_simp+
  with draw_before_ready_is_noop [of targetFps one_failed example_environment example_objects 1]
  show ?thesis by (simp add: failed_def)
qed

theorem frame_pacing_witness:
  "0 < (24::nat)
   \<and> loop started = Some \<lparr> start = 0, lastFrameTime = 0 \<rparr>
   \<and> render (Some 24) 10 started = started\<lparr>raf_pending := raf_pending started + 1\<rparr>
   \<and> accepted (render (Some 24) 50 started) = [50]
   \<and> accepted (run (Some 24) (all_loaded @ frames) (init_scene example_environment example_objects))
       = [100, 50]
   \<and> spaced (1000 / real 24)
        (accepted (run (Some 24) (all_loaded @ frames) (init_scene example_environment example_objects)))"
proof -
  have l: "loop started = Some \<lparr> start = 0, lastFrameTime = 0 \<rparr>" by code_simp
  have e: "accepted started = []" by code_simp
  have r: "accepted (run (Some 24) (all_loaded @ frames) (init_scene example_environment example_objects))
       = [100, 50]" by code_simp
  note p = frame_pacing [of 24 started "\<lparr> start = 0, lastFrameTime = 0 \<rparr>" _ "all_loaded @ frames"
      example_environment example_objects]
  from p [of 10] l have s: "render (Some 24) 10 started = started\<lparr>raf_pending := raf_pending started + 1\<rparr>"
    by simp
  from p [of 50] l e have a: "accepted (render (Some 24) 50 started) = [50]" by simp
  from p [of 0] have "spaced (1000 / real 24)
        (accepted (run (Some 24) (all_loaded @ frames) (init_scene example_environment example_objects)))"
    by simp
  with l s a r show ?thesis by simp
qed

end
